theory Spec2Isabelle
  imports Complex_Main "HOL-Library.List_Lexorder" "HOL-Library.Char_ord"
begin

section \<open>Canonical types (core/types.py)\<close>

text \<open>
  The enums of \<^verbatim>\<open>core/types.py\<close> are datatypes, the dataclasses are records.
  Python ints are \<^typ>\<open>int\<close>. The type of the floats of a position and of an account
  state is a parameter \<open>'f\<close>: the reconciliation worker, which computes with them, takes
  the type and its operations as parameters, so that nothing is assumed of rounding, NaN
  or infinities; the adapters, which parse, carry and print floats but do not compute
  with them, take them as the real numbers they denote. Record fields keep the source's
  names, with a prefix where two dataclasses use the same field name.
\<close>

datatype ExchangeId = PACIFICA | LIGHTER

datatype Direction = LONG | SHORT | NONE

datatype OrderType = MKT | LMT

datatype SupportedSymbol = BTC | ETH | SOL

datatype LogLevel = INFO | SUCCESS | WARN | ERROR

fun Direction_value :: "Direction \<Rightarrow> string" where
  "Direction_value LONG = ''LONG''"
| "Direction_value SHORT = ''SHORT''"
| "Direction_value NONE = ''NONE''"

fun OrderType_value :: "OrderType \<Rightarrow> string" where
  "OrderType_value MKT = ''MKT''"
| "OrderType_value LMT = ''LMT''"

fun SupportedSymbol_value :: "SupportedSymbol \<Rightarrow> string" where
  "SupportedSymbol_value BTC = ''BTC''"
| "SupportedSymbol_value ETH = ''ETH''"
| "SupportedSymbol_value SOL = ''SOL''"

record ApiCredentials =
  apiKey :: string
  apiSecret :: string
  accountAddress :: "string option"
  accountId :: "int option"
  l1Address :: "string option"

record 'f Position =
  direction :: Direction
  quantity :: 'f
  entryPrice :: 'f

record 'f ExchangeState =
  state_name :: string
  position :: "'f Position"
  pnl :: 'f
  balance :: 'f
  currency :: string
  leverage :: int

record Order =
  order_id :: string
  exchangeId :: ExchangeId
  order_type :: OrderType
  order_direction :: Direction
  order_quantity :: real
  filledQuantity :: real
  order_price :: real
  order_timestamp :: int

section \<open>The state store (main.py, MainWindow)\<close>

text \<open>
  \<^verbatim>\<open>MainWindow\<close> keeps the latest account state and price per exchange in two dicts
  and all open orders of all exchanges in one list. The slots below are the handlers of
  the adapters' signals, without their widget updates.
\<close>

record MainWindow =
  exchange_states :: "ExchangeId \<rightharpoonup> real ExchangeState"
  open_orders :: "Order list"
  prices :: "ExchangeId \<rightharpoonup> real"
  selected_A :: "ExchangeId option"
  selected_B :: "ExchangeId option"

definition on_orders_update :: "MainWindow \<Rightarrow> ExchangeId \<Rightarrow> Order list \<Rightarrow> MainWindow" where
  "on_orders_update w ex_id orders =
     (let other_orders = filter (\<lambda>od. exchangeId od \<noteq> ex_id) (open_orders w)
      in w\<lparr>open_orders := other_orders @ orders\<rparr>)"

definition on_price_update :: "MainWindow \<Rightarrow> ExchangeId \<Rightarrow> real \<Rightarrow> MainWindow" where
  "on_price_update w ex_id price = w\<lparr>prices := (prices w)(ex_id \<mapsto> price)\<rparr>"

text \<open>
  \<^verbatim>\<open>on_state_update\<close> stores the state and returns, with the new store, the pair
  \<^verbatim>\<open>(state_a, state_b)\<close> it emits to the reconciliation worker.
\<close>

definition on_state_update ::
  "MainWindow \<Rightarrow> ExchangeId \<Rightarrow> real ExchangeState
     \<Rightarrow> MainWindow \<times> real ExchangeState option \<times> real ExchangeState option" where
  "on_state_update w ex_id state =
     (let w' = w\<lparr>exchange_states := (exchange_states w)(ex_id \<mapsto> state)\<rparr>;
          state_a = (case selected_A w' of None \<Rightarrow> None | Some a \<Rightarrow> exchange_states w' a);
          state_b = (case selected_B w' of None \<Rightarrow> None | Some b \<Rightarrow> exchange_states w' b)
      in (w', state_a, state_b))"

text \<open>The orders the store holds for one exchange identity, in stored order.\<close>

definition orders_of :: "MainWindow \<Rightarrow> ExchangeId \<Rightarrow> Order list" where
  "orders_of w x = filter (\<lambda>od. exchangeId od = x) (open_orders w)"

section \<open>The reconciliation worker (core/workers.py)\<close>

text \<open>
  What the worker does is recorded as a trace of events: the log signals it emits, the
  \<^verbatim>\<open>create_order\<close> calls it makes on adapter B, and the time it blocks in
  \<^verbatim>\<open>QThread.sleep\<close> (seconds) and \<^verbatim>\<open>QThread.msleep\<close> (milliseconds).
  The adapters are objects the worker only tests for presence, asks for their name and
  calls \<^verbatim>\<open>create_order\<close> on: an adapter is modelled by its name, and what the call
  does (return, or raise with a message) is the parameter \<open>order_exn\<close>.
\<close>

text \<open>
  The worker computes with Python floats. Their type \<open>'f\<close> and every operation the
  worker applies to them are parameters, of which nothing is assumed: the texts
  \<^verbatim>\<open>f"{x:.5f}"\<close> and \<^verbatim>\<open>f"{x}"\<close>, the values of the literals \<^verbatim>\<open>0.0\<close> (which also stands
  for the int \<^verbatim>\<open>0\<close> where it meets a float), \<^verbatim>\<open>0.000001\<close> and \<^verbatim>\<open>0.1\<close>, the operations
  \<^verbatim>\<open>-x\<close>, \<^verbatim>\<open>x + y\<close>, \<^verbatim>\<open>abs(x)\<close>, \<^verbatim>\<open>x > y\<close> and \<^verbatim>\<open>x < y\<close>, and the number of seconds
  \<^verbatim>\<open>QThread.sleep(x)\<close> blocks.
\<close>

record 'f Formatting =
  fmt_5f :: "'f \<Rightarrow> string"
  str_float :: "'f \<Rightarrow> string"

record 'f Floats = "'f Formatting" +
  float_zero :: 'f
  float_tolerance :: 'f
  float_tenth :: 'f
  float_neg :: "'f \<Rightarrow> 'f"
  float_add :: "'f \<Rightarrow> 'f \<Rightarrow> 'f"
  float_abs :: "'f \<Rightarrow> 'f"
  float_gt :: "'f \<Rightarrow> 'f \<Rightarrow> bool"
  float_lt :: "'f \<Rightarrow> 'f \<Rightarrow> bool"
  sleep_secs :: "'f \<Rightarrow> real"

datatype 'f worker_event =
    LogMessage string LogLevel
  | CreateOrder string SupportedSymbol OrderType Direction 'f
  | Sleep real
  | MSleep real

record 'f AutoBalanceWorker =
  api_a :: "string option"
  api_b :: "string option"
  interval :: 'f
  symbol :: SupportedSymbol
  state_a :: "'f ExchangeState option"
  state_b :: "'f ExchangeState option"

type_synonym 'f create_order_behaviour =
  "string \<Rightarrow> SupportedSymbol \<Rightarrow> OrderType \<Rightarrow> Direction \<Rightarrow> 'f \<Rightarrow> string option"

text \<open>
  \<^verbatim>\<open>check_balance\<close>. The result is \<open>Inl e\<close> when an exception leaves the method
  (reading \<^verbatim>\<open>self.api_b.name\<close> with no adapter B; nothing has been emitted then),
  with \<open>e\<close> the text of the exception, and \<open>Inr\<close> of the events otherwise.
\<close>

definition check_balance ::
  "('f, 'z) Floats_scheme \<Rightarrow> 'f create_order_behaviour \<Rightarrow> 'f AutoBalanceWorker
     \<Rightarrow> string + 'f worker_event list" where
  "check_balance F order_exn w =
    (case (state_a w, state_b w) of
       (None, _) \<Rightarrow> Inr []
     | (_, None) \<Rightarrow> Inr []
     | (Some sa, Some sb) \<Rightarrow>
        (let pos_a = position sa;
             pos_b = position sb;
             signed_qty_a =
               (if direction pos_a = LONG then quantity pos_a
                else if direction pos_a = SHORT then float_neg F (quantity pos_a)
                else float_zero F);
             signed_qty_b =
               (if direction pos_b = LONG then quantity pos_b
                else if direction pos_b = SHORT then float_neg F (quantity pos_b)
                else float_zero F);
             discrepancy = float_add F signed_qty_a signed_qty_b
         in if float_gt F (float_abs F discrepancy) (float_tolerance F) then
              (let correction_qty = float_abs F discrepancy;
                   correction_dir = (if float_gt F discrepancy (float_zero F) then SHORT else LONG)
               in case api_b w of
                    None \<Rightarrow>
                      Inl ([CHR 0x27] @ ''NoneType' object has no attribute 'name'' @ [CHR 0x27])
                  | Some b \<Rightarrow>
                      Inr ([LogMessage
                              (''[AutoBalance] Discrepancy detected (A: '' @ fmt_5f F signed_qty_a
                                 @ '', B: '' @ fmt_5f F signed_qty_b @ ''). Balancing on '' @ b @ ''...'')
                              WARN,
                            CreateOrder b (symbol w) MKT correction_dir correction_qty]
                           @ (case order_exn b (symbol w) MKT correction_dir correction_qty of
                                None \<Rightarrow>
                                  [LogMessage
                                     (''['' @ b @ ''] Auto-balance MKT order submitted: ''
                                        @ Direction_value correction_dir @ '' '' @ fmt_5f F correction_qty)
                                     SUCCESS,
                                   Sleep 3]
                              | Some e \<Rightarrow>
                                  [LogMessage (''['' @ b @ ''] Auto-balance order failed: '' @ e) ERROR])))
            else Inr []))"

text \<open>
  Time. \<open>elapsed\<close> is the time in milliseconds a trace has blocked, counted from the
  first statement of \<^verbatim>\<open>run\<close>, which sets the flag \<^verbatim>\<open>is_running\<close>. The flag is cleared by
  \<^verbatim>\<open>stop\<close>, which another thread calls: \<open>stop_at\<close> is the time of that call (\<open>None\<close>:
  never). A call that is not after \<^verbatim>\<open>run\<close> has set the flag (a time that is not
  positive) is overwritten and has no effect; otherwise a read of the flag at time \<open>t\<close>
  sees it set exactly when \<open>t\<close> is before the call.
\<close>

fun block_ms :: "'f worker_event \<Rightarrow> real" where
  "block_ms (Sleep secs) = 1000 * secs"
| "block_ms (MSleep ms) = ms"
| "block_ms _ = 0"

definition elapsed :: "'f worker_event list \<Rightarrow> real" where
  "elapsed tr = sum_list (map block_ms tr)"

definition is_running :: "real option \<Rightarrow> 'f worker_event list \<Rightarrow> bool" where
  "is_running stop_at tr =
     (case stop_at of
        None \<Rightarrow> True
      | Some s \<Rightarrow> if s \<le> 0 then True else elapsed tr < s)"

text \<open>
  The sleep between two ticks: 100 ms at a time, until the sum of the \<^verbatim>\<open>0.1\<close>s added to
  \<^verbatim>\<open>slept_time\<close> is no longer below the interval or the flag is seen cleared. Of float
  addition nothing is assumed, so the loop need not end: \<open>None\<close> says it does not.
\<close>

partial_function (option) sleep_loop ::
  "('f, 'z) Floats_scheme \<Rightarrow> 'f \<Rightarrow> 'f \<Rightarrow> real option \<Rightarrow> 'f worker_event list
     \<Rightarrow> 'f worker_event list option" where
  "sleep_loop F intv slept_time stop_at tr =
     (if float_lt F slept_time intv \<and> is_running stop_at tr
      then sleep_loop F intv (float_add F slept_time (float_tenth F)) stop_at (tr @ [MSleep 100])
      else Some tr)"

text \<open>
  The loop of \<^verbatim>\<open>run\<close>. It runs until a read of the flag sees it cleared, so it may run
  forever: the first argument bounds the number of passes, and \<open>None\<close> says the bound was
  reached before the loop ended, or that a sleep between two ticks did not end. The
  worker's configuration and states are those at the start (in the program other threads
  may replace them between passes).
\<close>

fun run_loop ::
  "nat \<Rightarrow> ('f, 'z) Floats_scheme \<Rightarrow> 'f create_order_behaviour \<Rightarrow> 'f AutoBalanceWorker
     \<Rightarrow> real option \<Rightarrow> 'f worker_event list \<Rightarrow> 'f worker_event list option" where
  "run_loop 0 F order_exn w stop_at tr = None"
| "run_loop (Suc n) F order_exn w stop_at tr =
     (if \<not> is_running stop_at tr then Some tr
      else if api_a w = None \<or> api_b w = None then
        run_loop n F order_exn w stop_at
          (tr @ [LogMessage ''[AutoBalance] Waiting for A and B APIs...'' WARN,
                 Sleep (sleep_secs F (interval w))])
      else if state_a w = None \<or> state_b w = None then
        run_loop n F order_exn w stop_at
          (tr @ [LogMessage ''[AutoBalance] Waiting for A and B state data...'' WARN,
                 Sleep (sleep_secs F (interval w))])
      else
        (let tr1 = tr @ (case check_balance F order_exn w of
                           Inr evs \<Rightarrow> evs
                         | Inl e \<Rightarrow> [LogMessage (''[AutoBalance] Error: '' @ e) ERROR])
         in case sleep_loop F (interval w) (float_zero F) stop_at tr1 of
              None \<Rightarrow> None
            | Some tr2 \<Rightarrow> run_loop n F order_exn w stop_at tr2))"

definition run ::
  "nat \<Rightarrow> ('f, 'z) Floats_scheme \<Rightarrow> 'f create_order_behaviour \<Rightarrow> 'f AutoBalanceWorker
     \<Rightarrow> real option \<Rightarrow> 'f worker_event list option" where
  "run n F order_exn w stop_at =
     run_loop n F order_exn w stop_at
       [LogMessage (''[AutoBalance] Worker started. Interval: '' @ str_float F (interval w) @ ''s'') INFO]"

text \<open>The corrective orders in a result of \<^verbatim>\<open>check_balance\<close>.\<close>

fun is_order :: "'f worker_event \<Rightarrow> bool" where
  "is_order (CreateOrder _ _ _ _ _) = True"
| "is_order _ = False"

definition orders_issued :: "string + 'f worker_event list \<Rightarrow> 'f worker_event list" where
  "orders_issued r = (case r of Inl _ \<Rightarrow> [] | Inr evs \<Rightarrow> filter is_order evs)"

text \<open>
  The signed quantity of a position, in the words of the specification: \<open>+quantity\<close> for
  LONG, \<open>-quantity\<close> for SHORT and 0 for NONE, in the floats of the program.
\<close>

definition signed_quantity :: "('f, 'z) Floats_scheme \<Rightarrow> 'f Position \<Rightarrow> 'f" where
  "signed_quantity F p =
     (case direction p of
        LONG \<Rightarrow> quantity p
      | SHORT \<Rightarrow> float_neg F (quantity p)
      | NONE \<Rightarrow> float_zero F)"

section \<open>Python values, built-ins and exceptions\<close>

text \<open>
  What the adapters receive from an exchange is parsed JSON, and what they send is built
  from dicts: both are values of \<open>json\<close>. A dict is the list of its items, in insertion
  order. An exception is a value that carries the text \<^verbatim>\<open>str(e)\<close> gives; the handlers of
  the source tell three classes apart (\<^verbatim>\<open>requests.exceptions.RequestException\<close>,
  \<^verbatim>\<open>ValueError\<close> and everything else). The texts of errors raised by the interpreter are
  those of CPython 3.11; no theorem below depends on them.
\<close>

datatype json =
    JNull
  | JBool bool
  | JInt int
  | JFloat real
  | JStr string
  | JArr "json list"
  | JObj "(string \<times> json) list"

datatype pyexn =
    RequestException string
  | ValueError string
  | KeyError string
  | TypeError string
  | IndexError string
  | AttributeError string
  | PyException string

fun str_exn :: "pyexn \<Rightarrow> string" where
  "str_exn (RequestException m) = m"
| "str_exn (ValueError m) = m"
| "str_exn (KeyError m) = m"
| "str_exn (TypeError m) = m"
| "str_exn (IndexError m) = m"
| "str_exn (AttributeError m) = m"
| "str_exn (PyException m) = m"

fun is_RequestException :: "pyexn \<Rightarrow> bool" where
  "is_RequestException (RequestException _) = True"
| "is_RequestException _ = False"

fun is_ValueError :: "pyexn \<Rightarrow> bool" where
  "is_ValueError (ValueError _) = True"
| "is_ValueError _ = False"

text \<open>
  Conversions between strings and numbers that the model does not compute are parameters:
  \<^verbatim>\<open>float(s)\<close> and \<^verbatim>\<open>int(s)\<close> of a string (\<open>None\<close>: \<^verbatim>\<open>ValueError\<close>), the text of a
  float, and the text of a list or dict.
\<close>

record Python = "real Formatting" +
  float_of_str :: "string \<Rightarrow> real option"
  int_of_str :: "string \<Rightarrow> int option"
  repr_json :: "json \<Rightarrow> string"

fun type_name :: "json \<Rightarrow> string" where
  "type_name JNull = ''NoneType''"
| "type_name (JBool _) = ''bool''"
| "type_name (JInt _) = ''int''"
| "type_name (JFloat _) = ''float''"
| "type_name (JStr _) = ''str''"
| "type_name (JArr _) = ''list''"
| "type_name (JObj _) = ''dict''"

text \<open>Truth value of an object, as \<^verbatim>\<open>if x\<close> and \<^verbatim>\<open>not x\<close> test it.\<close>

fun truthy :: "json \<Rightarrow> bool" where
  "truthy JNull = False"
| "truthy (JBool b) = b"
| "truthy (JInt i) = (i \<noteq> 0)"
| "truthy (JFloat r) = (r \<noteq> 0)"
| "truthy (JStr s) = (s \<noteq> [])"
| "truthy (JArr xs) = (xs \<noteq> [])"
| "truthy (JObj kvs) = (kvs \<noteq> [])"

text \<open>The decimal text of an int, \<^verbatim>\<open>str(i)\<close>.\<close>

definition digit_char :: "nat \<Rightarrow> char" where
  "digit_char d = char_of (48 + d)"

function str_nat :: "nat \<Rightarrow> string" where
  "str_nat n = (if n < 10 then [digit_char n] else str_nat (n div 10) @ [digit_char (n mod 10)])"
  by pat_completeness auto
termination
  by (relation "measure id") auto

declare str_nat.simps [simp del]

definition str_int :: "int \<Rightarrow> string" where
  "str_int i = (if i < 0 then CHR ''-'' # str_nat (nat (- i)) else str_nat (nat i))"

text \<open>\<^verbatim>\<open>repr(s)\<close> of a string without quotes or backslashes, as in the text of a KeyError.\<close>

definition repr_str :: "string \<Rightarrow> string" where
  "repr_str s = [CHR 0x27] @ s @ [CHR 0x27]"

text \<open>\<^verbatim>\<open>x[key]\<close> with a string key.\<close>

fun py_getitem :: "json \<Rightarrow> string \<Rightarrow> pyexn + json" where
  "py_getitem (JObj kvs) k =
     (case map_of kvs k of Some v \<Rightarrow> Inr v | None \<Rightarrow> Inl (KeyError (repr_str k)))"
| "py_getitem (JArr xs) k = Inl (TypeError ''list indices must be integers or slices, not str'')"
| "py_getitem (JStr s) k = Inl (TypeError (''string indices must be integers, not 'str'' @ [CHR 0x27]))"
| "py_getitem j k = Inl (TypeError ([CHR 0x27] @ type_name j @ ''' object is not subscriptable''))"

text \<open>\<^verbatim>\<open>x[0]\<close>. The keys of a parsed JSON object are strings, so a dict has no key 0.\<close>

fun py_getitem0 :: "json \<Rightarrow> pyexn + json" where
  "py_getitem0 (JArr []) = Inl (IndexError ''list index out of range'')"
| "py_getitem0 (JArr (x # xs)) = Inr x"
| "py_getitem0 (JStr []) = Inl (IndexError ''string index out of range'')"
| "py_getitem0 (JStr (c # s)) = Inr (JStr [c])"
| "py_getitem0 (JObj kvs) = Inl (KeyError ''0'')"
| "py_getitem0 j = Inl (TypeError ([CHR 0x27] @ type_name j @ ''' object is not subscriptable''))"

text \<open>\<^verbatim>\<open>key in x\<close> with a string key: a key of a dict, an element of a list, a substring.\<close>

fun is_substring :: "string \<Rightarrow> string \<Rightarrow> bool" where
  "is_substring k [] = (k = [])"
| "is_substring k (c # s) = (take (length k) (c # s) = k \<or> is_substring k s)"

fun py_contains :: "string \<Rightarrow> json \<Rightarrow> pyexn + bool" where
  "py_contains k (JObj kvs) = Inr (k \<in> set (map fst kvs))"
| "py_contains k (JArr xs) = Inr (JStr k \<in> set xs)"
| "py_contains k (JStr s) = Inr (is_substring k s)"
| "py_contains k j =
     Inl (TypeError (''argument of type '' @ [CHR 0x27] @ type_name j @ ''' is not iterable''))"

text \<open>\<^verbatim>\<open>x.get(key, default)\<close>: only a dict has the method.\<close>

fun py_get :: "json \<Rightarrow> string \<Rightarrow> json \<Rightarrow> pyexn + json" where
  "py_get (JObj kvs) k d = Inr (case map_of kvs k of Some v \<Rightarrow> v | None \<Rightarrow> d)"
| "py_get j k d =
     Inl (AttributeError ([CHR 0x27] @ type_name j @ ''' object has no attribute 'get'' @ [CHR 0x27]))"

text \<open>\<^verbatim>\<open>float(x)\<close>, \<^verbatim>\<open>int(x)\<close> (which truncates a float toward zero) and \<^verbatim>\<open>str(x)\<close>.\<close>

fun py_float :: "('a Python_scheme) \<Rightarrow> json \<Rightarrow> pyexn + real" where
  "py_float P (JInt i) = Inr (of_int i)"
| "py_float P (JFloat r) = Inr r"
| "py_float P (JBool b) = Inr (if b then 1 else 0)"
| "py_float P (JStr s) =
     (case float_of_str P s of
        Some r \<Rightarrow> Inr r
      | None \<Rightarrow> Inl (ValueError (''could not convert string to float: '' @ repr_str s)))"
| "py_float P j =
     Inl (TypeError (''float() argument must be a string or a real number, not ''
                       @ [CHR 0x27] @ type_name j @ [CHR 0x27]))"

definition int_of_float :: "real \<Rightarrow> int" where
  "int_of_float r = (if r \<ge> 0 then \<lfloor>r\<rfloor> else \<lceil>r\<rceil>)"

fun py_int :: "('a Python_scheme) \<Rightarrow> json \<Rightarrow> pyexn + int" where
  "py_int P (JInt i) = Inr i"
| "py_int P (JFloat r) = Inr (int_of_float r)"
| "py_int P (JBool b) = Inr (if b then 1 else 0)"
| "py_int P (JStr s) =
     (case int_of_str P s of
        Some i \<Rightarrow> Inr i
      | None \<Rightarrow> Inl (ValueError (''invalid literal for int() with base 10: '' @ repr_str s)))"
| "py_int P j =
     Inl (TypeError (''int() argument must be a string, a bytes-like object or a real number, not ''
                       @ [CHR 0x27] @ type_name j @ [CHR 0x27]))"

fun py_str :: "('a Python_scheme) \<Rightarrow> json \<Rightarrow> string" where
  "py_str P JNull = ''None''"
| "py_str P (JBool b) = (if b then ''True'' else ''False'')"
| "py_str P (JInt i) = str_int i"
| "py_str P (JFloat r) = str_float P r"
| "py_str P (JStr s) = s"
| "py_str P j = repr_json P j"

text \<open>\<^verbatim>\<open>s.upper()\<close> on ASCII text, and \<^verbatim>\<open>sep.join(xs)\<close>.\<close>

definition upper_char :: "char \<Rightarrow> char" where
  "upper_char c =
     (let n = (of_char c :: nat) in if 97 \<le> n \<and> n \<le> 122 then char_of (n - 32) else c)"

definition upper :: "string \<Rightarrow> string" where
  "upper s = map upper_char s"

fun join :: "string \<Rightarrow> string list \<Rightarrow> string" where
  "join sep [] = []"
| "join sep [x] = x"
| "join sep (x # y # ys) = x @ sep @ join sep (y # ys)"

text \<open>
  \<^verbatim>\<open>json.dumps(x, separators=(item_sep, key_sep))\<close> with \<^verbatim>\<open>ensure_ascii\<close>: a string is
  quoted, with \<^verbatim>\<open>"\<close>, \<^verbatim>\<open>\\<close> and every character outside the printable ASCII range
  escaped. Without the argument \<^verbatim>\<open>separators\<close> the separators are \<^verbatim>\<open>", "\<close> and
  \<^verbatim>\<open>": "\<close>.
\<close>

definition hex_char :: "nat \<Rightarrow> char" where
  "hex_char d = (if d < 10 then char_of (48 + d) else char_of (87 + d))"

definition json_escape_char :: "char \<Rightarrow> string" where
  "json_escape_char c =
     (if c = CHR 0x22 then [CHR 0x5C, CHR 0x22]
      else if c = CHR 0x5C then [CHR 0x5C, CHR 0x5C]
      else if c = CHR 0x0A then [CHR 0x5C, CHR ''n'']
      else if c = CHR 0x0D then [CHR 0x5C, CHR ''r'']
      else if c = CHR 0x09 then [CHR 0x5C, CHR ''t'']
      else if c = CHR 0x0C then [CHR 0x5C, CHR ''f'']
      else if c = CHR 0x08 then [CHR 0x5C, CHR ''b'']
      else if (of_char c :: nat) < 32 \<or> (of_char c :: nat) > 126
        then [CHR 0x5C, CHR ''u'', CHR ''0'', CHR ''0'',
              hex_char ((of_char c :: nat) div 16), hex_char ((of_char c :: nat) mod 16)]
      else [c])"

definition json_quote :: "string \<Rightarrow> string" where
  "json_quote s = [CHR 0x22] @ concat (map json_escape_char s) @ [CHR 0x22]"

fun json_dumps :: "('a Python_scheme) \<Rightarrow> string \<Rightarrow> string \<Rightarrow> json \<Rightarrow> string" where
  "json_dumps P item_sep key_sep JNull = ''null''"
| "json_dumps P item_sep key_sep (JBool b) = (if b then ''true'' else ''false'')"
| "json_dumps P item_sep key_sep (JInt i) = str_int i"
| "json_dumps P item_sep key_sep (JFloat r) = str_float P r"
| "json_dumps P item_sep key_sep (JStr s) = json_quote s"
| "json_dumps P item_sep key_sep (JArr xs) =
     ''['' @ join item_sep (map (json_dumps P item_sep key_sep) xs) @ '']''"
| "json_dumps P item_sep key_sep (JObj kvs) =
     ''{'' @ join item_sep
               (map (\<lambda>kv. json_quote (fst kv) @ key_sep @ json_dumps P item_sep key_sep (snd kv)) kvs)
          @ ''}''"

definition dumps_default :: "('a Python_scheme) \<Rightarrow> json \<Rightarrow> string" where
  "dumps_default P x = json_dumps P '', '' '': '' x"

definition dumps_compact :: "('a Python_scheme) \<Rightarrow> json \<Rightarrow> string" where
  "dumps_compact P x = json_dumps P '','' '':'' x"

section \<open>Effects of the adapters: signals, requests, the clock\<close>

text \<open>
  An adapter emits Qt signals, sends HTTP requests through \<^verbatim>\<open>requests\<close>, reads the clock
  and arms one-shot timers. The signals, the requests sent and the timers armed are
  recorded, in order, as events. The outside world is a record of oracles: the \<open>k\<close>-th
  reading of the clock in milliseconds, the outcome of the \<open>k\<close>-th request sent (\<open>Inl\<close>:
  \<^verbatim>\<open>requests\<close> raises a \<^verbatim>\<open>RequestException\<close> such as a connection error, with that text;
  \<open>Inr\<close>: a response arrived), and the two signature primitives, which are not computed
  here.
\<close>

datatype request =
  Request (req_method: string) (req_url: string) (req_headers: "(string \<times> string) list option")
    (req_params: "json option") (req_json: "json option")

text \<open>
  Of a response the code uses \<^verbatim>\<open>raise_for_status()\<close> (\<open>status_error\<close>: the text of the
  \<^verbatim>\<open>HTTPError\<close> for a 4xx/5xx status) and \<^verbatim>\<open>json()\<close> (\<open>Inl\<close>: the text of the
  \<^verbatim>\<open>JSONDecodeError\<close> when the body is not JSON).
\<close>

record response =
  status_error :: "string option"
  body :: "string + json"

datatype adapter_event =
    log_message string LogLevel
  | price_update ExchangeId real
  | state_update ExchangeId "real ExchangeState"
  | orders_update ExchangeId "Order list"
  | Sent request
  | singleShot nat

record World =
  now_ms :: "nat \<Rightarrow> int"
  send :: "nat \<Rightarrow> request \<Rightarrow> string + response"
  hmac_sha256_hex :: "string \<Rightarrow> string \<Rightarrow> string"
  ed25519_sign_b58 :: "string \<Rightarrow> string \<Rightarrow> string + string"

record Exec =
  clock_reads :: nat
  requests_sent :: nat
  events :: "adapter_event list"

type_synonym 'a io = "Exec \<Rightarrow> (pyexn + 'a) \<times> Exec"

definition ret :: "'a \<Rightarrow> 'a io" where
  "ret x = (\<lambda>s. (Inr x, s))"

definition raise :: "pyexn \<Rightarrow> 'a io" where
  "raise e = (\<lambda>s. (Inl e, s))"

definition lift :: "pyexn + 'a \<Rightarrow> 'a io" where
  "lift r = (\<lambda>s. (r, s))"

definition seq :: "'a io \<Rightarrow> ('a \<Rightarrow> 'b io) \<Rightarrow> 'b io" where
  "seq m f = (\<lambda>s. case m s of (Inl e, s') \<Rightarrow> (Inl e, s') | (Inr x, s') \<Rightarrow> f x s')"

definition emits :: "adapter_event \<Rightarrow> Exec \<Rightarrow> Exec" where
  "emits ev s = s\<lparr>events := events s @ [ev]\<rparr>"

definition emit :: "adapter_event \<Rightarrow> unit io" where
  "emit ev = (\<lambda>s. (Inr (), emits ev s))"

definition read_clock :: "World \<Rightarrow> int io" where
  "read_clock W = (\<lambda>s. (Inr (now_ms W (clock_reads s)), s\<lparr>clock_reads := Suc (clock_reads s)\<rparr>))"

definition http :: "World \<Rightarrow> request \<Rightarrow> response io" where
  "http W rq =
     (\<lambda>s. let s' = s\<lparr>requests_sent := Suc (requests_sent s), events := events s @ [Sent rq]\<rparr>
          in case send W (requests_sent s) rq of
               Inl m \<Rightarrow> (Inl (RequestException m), s')
             | Inr r \<Rightarrow> (Inr r, s'))"

text \<open>Sequencing of computations that only return or raise.\<close>

definition bindS :: "pyexn + 'a \<Rightarrow> ('a \<Rightarrow> pyexn + 'b) \<Rightarrow> pyexn + 'b" where
  "bindS r f = (case r of Inl e \<Rightarrow> Inl e | Inr x \<Rightarrow> f x)"

fun mapS :: "('a \<Rightarrow> pyexn + 'b) \<Rightarrow> 'a list \<Rightarrow> pyexn + 'b list" where
  "mapS f [] = Inr []"
| "mapS f (x # xs) = bindS (f x) (\<lambda>y. bindS (mapS f xs) (\<lambda>ys. Inr (y # ys)))"

text \<open>\<^verbatim>\<open>for x in v\<close>: the elements a loop over a value visits.\<close>

fun py_iter :: "json \<Rightarrow> pyexn + json list" where
  "py_iter (JArr xs) = Inr xs"
| "py_iter (JObj kvs) = Inr (map (\<lambda>kv. JStr (fst kv)) kvs)"
| "py_iter (JStr s) = Inr (map (\<lambda>c. JStr [c]) s)"
| "py_iter j = Inl (TypeError ([CHR 0x27] @ type_name j @ ''' object is not iterable''))"

definition sent_requests :: "adapter_event list \<Rightarrow> request list" where
  "sent_requests evs = concat (map (\<lambda>ev. case ev of Sent rq \<Rightarrow> [rq] | _ \<Rightarrow> []) evs)"

definition exec0 :: Exec where
  "exec0 = \<lparr>clock_reads = 0, requests_sent = 0, events = []\<rparr>"

section \<open>The Lighter client and adapter (core/wrappers/lighter.py)\<close>

subsection \<open>Client\<close>

record LighterClient =
  lc_api_key :: string
  lc_api_secret :: string
  lc_account_id :: string
  lc_l1_address :: string
  lc_base_url :: string

definition lighter_base_url :: string where
  "lighter_base_url = ''https://mainnet.zklighter.elliot.ai''"

text \<open>
  \<^verbatim>\<open>_handle_response\<close>. A 4xx/5xx status raises \<^verbatim>\<open>Exception("HTTP error occurred: ...")\<close>
  with the \<^verbatim>\<open>error\<close> field of the body when the body is a JSON object; a body that is
  JSON but no object makes \<^verbatim>\<open>error_data.get\<close> raise inside the handler.
\<close>

definition handle_response :: "('a Python_scheme) \<Rightarrow> response \<Rightarrow> pyexn + json" where
  "handle_response P resp =
     (case status_error resp of
        None \<Rightarrow>
          (case body resp of
             Inr j \<Rightarrow> Inr j
           | Inl err \<Rightarrow> Inl (PyException (''Other error occurred: '' @ err)))
      | Some http_err \<Rightarrow>
          (case body resp of
             Inl err \<Rightarrow> Inl (PyException (''HTTP error occurred: '' @ http_err))
           | Inr error_data \<Rightarrow>
               bindS (py_get error_data ''error'' (JStr http_err))
                 (\<lambda>error_msg. Inl (PyException (''HTTP error occurred: '' @ py_str P error_msg)))))"

text \<open>
  \<^verbatim>\<open>_get_auth_headers\<close>. \<open>signing_message\<close> is the local \<^verbatim>\<open>message\<close> of the method:
  \<^verbatim>\<open>body = json.dumps(data) if data else ""\<close> and
  \<^verbatim>\<open>message = f"{timestamp}{method.upper()}{endpoint}{body}"\<close>.
\<close>

definition signing_message ::
  "('a Python_scheme) \<Rightarrow> string \<Rightarrow> string \<Rightarrow> string \<Rightarrow> json option \<Rightarrow> string" where
  "signing_message P timestamp method endpoint data =
     (let body = (case data of
                    None \<Rightarrow> []
                  | Some d \<Rightarrow> if truthy d then dumps_default P d else [])
      in timestamp @ upper method @ endpoint @ body)"

definition get_auth_headers ::
  "World \<Rightarrow> ('a Python_scheme) \<Rightarrow> LighterClient \<Rightarrow> string \<Rightarrow> string \<Rightarrow> json option
     \<Rightarrow> (string \<times> string) list io" where
  "get_auth_headers W P c method endpoint data =
     (if lc_api_key c = [] \<or> lc_api_secret c = []
      then raise (ValueError ''API key and secret must be set for private endpoints'')
      else seq (read_clock W) (\<lambda>now.
        let timestamp = str_int now;
            message = signing_message P timestamp method endpoint data;
            signature = hmac_sha256_hex W (lc_api_secret c) message
        in ret [(''Content-Type'', ''application/json''),
                (''X-Api-Key'', lc_api_key c),
                (''X-Timestamp'', timestamp),
                (''X-Signature'', signature)]))"

definition lighter_get ::
  "World \<Rightarrow> ('a Python_scheme) \<Rightarrow> LighterClient \<Rightarrow> string \<Rightarrow> json option \<Rightarrow> json io" where
  "lighter_get W P c endpoint params =
     seq (http W (Request ''GET'' (lc_base_url c @ endpoint) None params None))
       (\<lambda>resp. lift (handle_response P resp))"

definition lighter_post ::
  "World \<Rightarrow> ('a Python_scheme) \<Rightarrow> LighterClient \<Rightarrow> string \<Rightarrow> json option \<Rightarrow> json io" where
  "lighter_post W P c endpoint data =
     seq (get_auth_headers W P c ''POST'' endpoint data) (\<lambda>headers.
     seq (http W (Request ''POST'' (lc_base_url c @ endpoint) (Some headers) None data))
       (\<lambda>resp. lift (handle_response P resp)))"

definition lighter_delete ::
  "World \<Rightarrow> ('a Python_scheme) \<Rightarrow> LighterClient \<Rightarrow> string \<Rightarrow> json option \<Rightarrow> json io" where
  "lighter_delete W P c endpoint data =
     seq (get_auth_headers W P c ''DELETE'' endpoint data) (\<lambda>headers.
     seq (http W (Request ''DELETE'' (lc_base_url c @ endpoint) (Some headers) None data))
       (\<lambda>resp. lift (handle_response P resp)))"

text \<open>The private GET endpoints sign with no data and send the account id as a parameter.\<close>

definition lighter_private_get ::
  "World \<Rightarrow> ('a Python_scheme) \<Rightarrow> LighterClient \<Rightarrow> string \<Rightarrow> json \<Rightarrow> json io" where
  "lighter_private_get W P c endpoint params =
     seq (get_auth_headers W P c ''GET'' endpoint None) (\<lambda>headers.
     seq (http W (Request ''GET'' (lc_base_url c @ endpoint) (Some headers) (Some params) None))
       (\<lambda>resp. lift (handle_response P resp)))"

definition get_market_price ::
  "World \<Rightarrow> ('a Python_scheme) \<Rightarrow> LighterClient \<Rightarrow> string \<Rightarrow> json io" where
  "get_market_price W P c market_name =
     seq (lighter_get W P c (''/api/v2/market/summary?market='' @ market_name) None) (\<lambda>data.
     seq (if truthy data then lift (py_contains ''mark_price'' data) else ret False) (\<lambda>found.
       if found
       then seq (lift (py_getitem data ''mark_price'')) (\<lambda>v. ret (JObj [(''price'', v)]))
       else raise (PyException (''Price not found in response: '' @ py_str P data))))"

definition get_account_collateral ::
  "World \<Rightarrow> ('a Python_scheme) \<Rightarrow> LighterClient \<Rightarrow> string \<Rightarrow> json io" where
  "get_account_collateral W P c token_name =
     lighter_private_get W P c ''/api/v2/account/collateral''
       (JObj [(''token'', JStr token_name), (''account_id'', JStr (lc_account_id c))])"

definition lighter_update_collateral ::
  "World \<Rightarrow> ('a Python_scheme) \<Rightarrow> LighterClient \<Rightarrow> string \<Rightarrow> string \<Rightarrow> json io" where
  "lighter_update_collateral W P c token_name lev =
     lighter_post W P c ''/api/v2/account/collateral''
       (Some (JObj [(''account_id'', JStr (lc_account_id c)),
                    (''token'', JStr token_name),
                    (''leverage'', JStr lev)]))"

definition lighter_get_positions ::
  "World \<Rightarrow> ('a Python_scheme) \<Rightarrow> LighterClient \<Rightarrow> string \<Rightarrow> json io" where
  "lighter_get_positions W P c market_name =
     lighter_private_get W P c ''/api/v2/account/positions''
       (JObj [(''market'', JStr market_name), (''account_id'', JStr (lc_account_id c))])"

text \<open>
  \<^verbatim>\<open>get_orders\<close>: with status \<^verbatim>\<open>OPEN\<close> the list comprehension
  \<^verbatim>\<open>[o for o in all_orders if o.get('status') == 'OPEN']\<close> filters the response.
\<close>

fun filter_open :: "json list \<Rightarrow> pyexn + json list" where
  "filter_open [] = Inr []"
| "filter_open (od # ods) =
     bindS (py_get od ''status'' JNull) (\<lambda>st.
     bindS (filter_open ods) (\<lambda>rest. Inr (if st = JStr ''OPEN'' then od # rest else rest)))"

definition lighter_get_orders ::
  "World \<Rightarrow> ('a Python_scheme) \<Rightarrow> LighterClient \<Rightarrow> string \<Rightarrow> string \<Rightarrow> json io" where
  "lighter_get_orders W P c market_name status =
     seq (lighter_private_get W P c ''/api/v2/account/orders''
            (JObj [(''market'', JStr market_name), (''account_id'', JStr (lc_account_id c))]))
       (\<lambda>all_orders.
          if status = ''OPEN''
          then lift (bindS (py_iter all_orders) (\<lambda>xs. bindS (filter_open xs) (\<lambda>ys. Inr (JArr ys))))
          else ret all_orders)"

definition lighter_post_order ::
  "World \<Rightarrow> ('a Python_scheme) \<Rightarrow> LighterClient \<Rightarrow> string \<Rightarrow> string \<Rightarrow> string \<Rightarrow> string
     \<Rightarrow> string option \<Rightarrow> json io" where
  "lighter_post_order W P c market_name side sdk_type sz price =
     (let data = [(''account_id'', JStr (lc_account_id c)),
                  (''market'', JStr market_name),
                  (''side'', JStr side),
                  (''type'', JStr sdk_type),
                  (''size'', JStr sz)];
          data' = (case price of
                     None \<Rightarrow> data
                   | Some p \<Rightarrow> if p \<noteq> [] then data @ [(''price'', JStr p)] else data)
      in lighter_post W P c ''/api/v2/account/orders'' (Some (JObj data')))"

definition lighter_delete_order ::
  "World \<Rightarrow> ('a Python_scheme) \<Rightarrow> LighterClient \<Rightarrow> string \<Rightarrow> int \<Rightarrow> json io" where
  "lighter_delete_order W P c market_name oid =
     lighter_delete W P c ''/api/v2/account/orders''
       (Some (JObj [(''account_id'', JStr (lc_account_id c)),
                    (''market'', JStr market_name),
                    (''order_id'', JInt oid)]))"

definition lighter_delete_orders ::
  "World \<Rightarrow> ('a Python_scheme) \<Rightarrow> LighterClient \<Rightarrow> string \<Rightarrow> json io" where
  "lighter_delete_orders W P c market_name =
     lighter_delete W P c ''/api/v2/account/orders/all''
       (Some (JObj [(''account_id'', JStr (lc_account_id c)), (''market'', JStr market_name)]))"

subsection \<open>Adapter\<close>

text \<open>
  The adapter object: its name, its client (\<open>None\<close> until \<^verbatim>\<open>connect\<close> succeeds), whether
  its poll timer is active, and the symbol and market it streams.
\<close>

record LighterAPI =
  l_name :: string
  l_client :: "LighterClient option"
  l_timer_active :: bool
  l_symbol :: SupportedSymbol
  l_market_name :: string

definition lighter_log :: "LighterAPI \<Rightarrow> string \<Rightarrow> LogLevel \<Rightarrow> adapter_event" where
  "lighter_log a msg lvl = log_message (''['' @ l_name a @ ''] '' @ msg) lvl"

text \<open>
  \<^verbatim>\<open>connect\<close>. The test \<^verbatim>\<open>not creds.accountId or not creds.l1Address\<close> is by truth
  value: an account id that is \<^verbatim>\<open>None\<close> or 0, or an address that is \<^verbatim>\<open>None\<close> or
  empty, fails it.
\<close>

definition lighter_connect_try ::
  "World \<Rightarrow> ('a Python_scheme) \<Rightarrow> LighterAPI \<Rightarrow> LighterClient \<Rightarrow> bool io" where
  "lighter_connect_try W P a c =
     seq (get_account_collateral W P c ''USDT'') (\<lambda>response.
     seq (if truthy response then lift (py_contains ''balance'' response) else ret False) (\<lambda>ok.
       if ok
       then seq (lift (py_getitem response ''balance'')) (\<lambda>b.
            seq (emit (lighter_log a (''Connection successful. Balance: '' @ py_str P b) SUCCESS))
              (\<lambda>_. ret True))
       else seq (emit (lighter_log a (''Connection failed: '' @ py_str P response) ERROR))
              (\<lambda>_. ret False)))"

definition lighter_connect ::
  "World \<Rightarrow> ('a Python_scheme) \<Rightarrow> LighterAPI \<Rightarrow> ApiCredentials \<Rightarrow> Exec
     \<Rightarrow> bool \<times> LighterAPI \<times> Exec" where
  "lighter_connect W P a creds s =
     (let s1 = emits (lighter_log a (''Connecting with API Key '' @ take 5 (apiKey creds) @ ''...'') INFO) s;
          failed = (False, a,
                    emits (lighter_log a
                             ''Connection failed: Lighter requires Account ID and L1 Address.'' ERROR) s1)
      in case accountId creds of
           None \<Rightarrow> failed
         | Some account \<Rightarrow>
             if account = 0 then failed
             else (case l1Address creds of
                     None \<Rightarrow> failed
                   | Some l1 \<Rightarrow>
                       if l1 = [] then failed
                       else
                         (let c = \<lparr>lc_api_key = apiKey creds, lc_api_secret = apiSecret creds,
                                   lc_account_id = str_int account, lc_l1_address = l1,
                                   lc_base_url = lighter_base_url\<rparr>
                          in case lighter_connect_try W P a c s1 of
                               (Inr True, s2) \<Rightarrow> (True, a\<lparr>l_client := Some c\<rparr>, s2)
                             | (Inr False, s2) \<Rightarrow> (False, a\<lparr>l_client := None\<rparr>, s2)
                             | (Inl e, s2) \<Rightarrow>
                                 (False, a\<lparr>l_client := None\<rparr>,
                                  emits (lighter_log a (''Connection error: '' @ str_exn e) ERROR) s2))))"

definition lighter_stop_streaming :: "LighterAPI \<Rightarrow> Exec \<Rightarrow> LighterAPI \<times> Exec" where
  "lighter_stop_streaming a s =
     (a\<lparr>l_timer_active := False\<rparr>, emits (lighter_log a ''Real-data polling stopped.'' INFO) s)"

text \<open>
  The translation of the position payload in \<^verbatim>\<open>_poll_data\<close> (the \<^verbatim>\<open>if\<close>/\<^verbatim>\<open>else\<close> that
  sets \<^verbatim>\<open>pos_qty\<close>, \<^verbatim>\<open>pos_dir\<close>, \<^verbatim>\<open>pos_entry\<close> and \<^verbatim>\<open>pnl\<close>), and of one order.
\<close>

definition lighter_position :: "('a Python_scheme) \<Rightarrow> json \<Rightarrow> pyexn + (real Position \<times> real)" where
  "lighter_position P position_data =
     bindS (if truthy position_data
            then bindS (bindS (py_getitem position_data ''size'') (py_float P)) (\<lambda>sz. Inr (sz > 0))
            else Inr False)
       (\<lambda>has_position.
          if has_position
          then bindS (bindS (py_getitem position_data ''size'') (py_float P)) (\<lambda>pos_qty.
               bindS (py_getitem position_data ''side'') (\<lambda>side.
               bindS (bindS (py_getitem position_data ''entry_price'') (py_float P)) (\<lambda>pos_entry.
               bindS (bindS (py_getitem position_data ''unrealised_pnl'') (py_float P)) (\<lambda>pnl_value.
                 Inr (\<lparr>direction = (if side = JStr ''B'' then LONG else SHORT),
                       quantity = pos_qty, entryPrice = pos_entry\<rparr>, pnl_value)))))
          else Inr (\<lparr>direction = NONE, quantity = 0, entryPrice = 0\<rparr>, 0))"

definition lighter_order :: "('a Python_scheme) \<Rightarrow> json \<Rightarrow> pyexn + Order" where
  "lighter_order P od =
     bindS (py_getitem od ''order_id'') (\<lambda>oid.
     bindS (py_getitem od ''type'') (\<lambda>ty.
     bindS (py_getitem od ''side'') (\<lambda>side.
     bindS (bindS (py_getitem od ''size'') (py_float P)) (\<lambda>sz.
     bindS (bindS (py_getitem od ''filled_size'') (py_float P)) (\<lambda>filled.
     bindS (bindS (py_getitem od ''price'') (py_float P)) (\<lambda>pr.
     bindS (bindS (py_getitem od ''created_at'') (py_int P)) (\<lambda>created.
       Inr \<lparr>order_id = py_str P oid, exchangeId = LIGHTER,
            order_type = (if ty = JStr ''L'' then LMT else MKT),
            order_direction = (if side = JStr ''B'' then LONG else SHORT),
            order_quantity = sz, filledQuantity = filled, order_price = pr,
            order_timestamp = created\<rparr>)))))))"

definition lighter_poll_try ::
  "World \<Rightarrow> ('a Python_scheme) \<Rightarrow> LighterAPI \<Rightarrow> LighterClient \<Rightarrow> unit io" where
  "lighter_poll_try W P a c =
     seq (get_market_price W P c (l_market_name a)) (\<lambda>price_data.
     seq (lift (bindS (py_getitem price_data ''price'') (py_float P))) (\<lambda>price.
     seq (emit (price_update LIGHTER price)) (\<lambda>_.
     seq (get_account_collateral W P c ''USDT'') (\<lambda>collateral_data.
     seq (lighter_get_positions W P c (l_market_name a)) (\<lambda>position_data.
     seq (lift (bindS (py_getitem collateral_data ''balance'') (py_float P))) (\<lambda>bal.
     seq (lift (bindS (bindS (py_getitem collateral_data ''leverage'') (py_float P))
                  (\<lambda>x. Inr (int_of_float x)))) (\<lambda>lev.
     seq (lift (lighter_position P position_data)) (\<lambda>pp.
     seq (emit (state_update LIGHTER
                  \<lparr>state_name = l_name a, position = fst pp, pnl = snd pp, balance = bal,
                   currency = ''USDT'', leverage = lev\<rparr>)) (\<lambda>_.
     seq (lighter_get_orders W P c (l_market_name a) ''OPEN'') (\<lambda>orders_data.
     seq (lift (bindS (py_iter orders_data) (mapS (lighter_order P)))) (\<lambda>py_orders.
       emit (orders_update LIGHTER py_orders))))))))))))"

definition lighter_poll_data ::
  "World \<Rightarrow> ('a Python_scheme) \<Rightarrow> LighterAPI \<Rightarrow> Exec \<Rightarrow> LighterAPI \<times> Exec" where
  "lighter_poll_data W P a s =
     (case l_client a of
        None \<Rightarrow> lighter_stop_streaming a s
      | Some c \<Rightarrow>
          if \<not> l_timer_active a then lighter_stop_streaming a s
          else (case lighter_poll_try W P a c s of
                  (Inr u, s') \<Rightarrow> (a, s')
                | (Inl e, s') \<Rightarrow>
                    if is_RequestException e
                    then lighter_stop_streaming a
                           (emits (lighter_log a (''Network error during poll: '' @ str_exn e) ERROR) s')
                    else (a, emits (lighter_log a (''Data poll failed: '' @ str_exn e) ERROR) s')))"

definition lighter_start_streaming ::
  "World \<Rightarrow> ('a Python_scheme) \<Rightarrow> LighterAPI \<Rightarrow> SupportedSymbol \<Rightarrow> Exec \<Rightarrow> LighterAPI \<times> Exec" where
  "lighter_start_streaming W P a smb s =
     (case l_client a of
        None \<Rightarrow> (a, emits (lighter_log a ''Cannot start streaming: Not connected.'' ERROR) s)
      | Some c \<Rightarrow>
          (let a1 = a\<lparr>l_symbol := smb, l_market_name := SupportedSymbol_value smb @ ''-PERP''\<rparr>;
               s1 = emits (lighter_log a1 (''Real-data polling started for '' @ l_market_name a1 @ ''...'')
                             INFO) s
           in if \<not> l_timer_active a1
              then (case lighter_poll_data W P a1 s1 of (a2, s2) \<Rightarrow> (a2\<lparr>l_timer_active := True\<rparr>, s2))
              else (a1, s1)))"

text \<open>
  The four commands. Each returns at once when there is no client; otherwise it logs,
  calls the client, and on success logs again and arms a one-shot poll after 500 ms.
\<close>

definition lighter_command ::
  "LighterAPI \<Rightarrow> json io \<Rightarrow> string \<Rightarrow> string \<Rightarrow> Exec \<Rightarrow> LighterAPI \<times> Exec" where
  "lighter_command a call ok_msg fail_msg s =
     (case call s of
        (Inr r, s') \<Rightarrow> (a, emits (singleShot 500) (emits (lighter_log a ok_msg SUCCESS) s'))
      | (Inl e, s') \<Rightarrow> (a, emits (lighter_log a (fail_msg @ str_exn e) ERROR) s'))"

definition lighter_set_leverage ::
  "World \<Rightarrow> ('a Python_scheme) \<Rightarrow> LighterAPI \<Rightarrow> SupportedSymbol \<Rightarrow> int \<Rightarrow> Exec
     \<Rightarrow> LighterAPI \<times> Exec" where
  "lighter_set_leverage W P a smb lev s =
     (case l_client a of
        None \<Rightarrow> (a, s)
      | Some c \<Rightarrow>
          lighter_command a
            (lighter_update_collateral W P c ''USDT'' (str_int lev))
            (''Leverage set to '' @ str_int lev @ ''x.'')
            ''Set leverage failed: ''
            (emits (lighter_log a (''Setting leverage to '' @ str_int lev @ ''x...'') INFO) s))"

definition price_text :: "('a Python_scheme) \<Rightarrow> real option \<Rightarrow> string option" where
  "price_text P price =
     (case price of None \<Rightarrow> None | Some p \<Rightarrow> if p \<noteq> 0 then Some (str_float P p) else None)"

definition lighter_create_order ::
  "World \<Rightarrow> ('a Python_scheme) \<Rightarrow> LighterAPI \<Rightarrow> SupportedSymbol \<Rightarrow> OrderType \<Rightarrow> Direction
     \<Rightarrow> real \<Rightarrow> real option \<Rightarrow> Exec \<Rightarrow> LighterAPI \<times> Exec" where
  "lighter_create_order W P a smb ot dir qty price s =
     (case l_client a of
        None \<Rightarrow> (a, s)
      | Some c \<Rightarrow>
          (let market = SupportedSymbol_value smb @ ''-PERP'';
               side = (if dir = LONG then ''B'' else ''S'');
               sdk_order_type = (if ot = LMT then ''L'' else ''M'');
               log_msg = ''Create '' @ OrderType_value ot @ '' '' @ Direction_value dir @ '' ''
                           @ str_float P qty @ '' @ ''
                           @ (case price_text P price of None \<Rightarrow> ''MKT'' | Some t \<Rightarrow> t)
           in lighter_command a
                (lighter_post_order W P c market side sdk_order_type (str_float P qty) (price_text P price))
                ''Order submitted successfully.''
                ''Order creation failed: ''
                (emits (lighter_log a log_msg INFO) s)))"

definition lighter_cancel_order ::
  "World \<Rightarrow> ('a Python_scheme) \<Rightarrow> LighterAPI \<Rightarrow> SupportedSymbol \<Rightarrow> string \<Rightarrow> Exec
     \<Rightarrow> LighterAPI \<times> Exec" where
  "lighter_cancel_order W P a smb oid s =
     (case l_client a of
        None \<Rightarrow> (a, s)
      | Some c \<Rightarrow>
          lighter_command a
            (seq (lift (py_int P (JStr oid)))
               (\<lambda>n. lighter_delete_order W P c (SupportedSymbol_value smb @ ''-PERP'') n))
            (''Order '' @ oid @ '' cancelled.'')
            ''Cancel order failed: ''
            (emits (lighter_log a (''Cancelling order: '' @ oid) INFO) s))"

definition lighter_cancel_all_orders ::
  "World \<Rightarrow> ('a Python_scheme) \<Rightarrow> LighterAPI \<Rightarrow> SupportedSymbol \<Rightarrow> Exec \<Rightarrow> LighterAPI \<times> Exec" where
  "lighter_cancel_all_orders W P a smb s =
     (case l_client a of
        None \<Rightarrow> (a, s)
      | Some c \<Rightarrow>
          lighter_command a
            (lighter_delete_orders W P c (SupportedSymbol_value smb @ ''-PERP''))
            ''All orders cancelled.''
            ''Cancel all orders failed: ''
            (emits (lighter_log a (''Cancelling ALL orders for '' @ SupportedSymbol_value smb @ ''...'')
                      WARN) s))"

section \<open>The Pacifica client and adapter (core/wrappers/pacifica.py)\<close>

subsection \<open>Signing\<close>

definition check_api_keys :: "string \<Rightarrow> string \<Rightarrow> pyexn + unit" where
  "check_api_keys api_key private_key =
     (if api_key = [] then Inl (ValueError ''API key is not set'')
      else if private_key = [] then Inl (ValueError ''Private key is not set'')
      else Inr ())"

text \<open>
  \<^verbatim>\<open>create_signature(private_key, request_str, method, params)\<close>; \<open>params\<close> is a dict,
  given by its items. The first statement is
  \<^verbatim>\<open>check_api_keys(api_key="", private_key=private_key)\<close>. Decoding the key, signing and
  encoding the signature are the oracle \<open>ed25519_sign_b58\<close> (\<open>Inl\<close>: the text of the
  exception of \<^verbatim>\<open>base58\<close> or \<^verbatim>\<open>ed25519\<close>).
\<close>

definition query_string_of :: "('a Python_scheme) \<Rightarrow> (string \<times> json) list \<Rightarrow> string" where
  "query_string_of P params =
     join ''&'' (map (\<lambda>kv. fst kv @ ''='' @ py_str P (snd kv)) (sort_key fst params))"

definition create_signature ::
  "World \<Rightarrow> ('a Python_scheme) \<Rightarrow> string \<Rightarrow> string \<Rightarrow> string \<Rightarrow> (string \<times> json) list
     \<Rightarrow> (string \<times> string) io" where
  "create_signature W P private_key request_str method params =
     seq (lift (check_api_keys [] private_key)) (\<lambda>_.
     seq (read_clock W) (\<lambda>now.
       let timestamp = str_int now;
           query_string = (if method \<in> {''GET'', ''DELETE''} \<and> params \<noteq> []
                           then query_string_of P params else []);
           body_string = (if method \<in> {''POST'', ''PUT''} \<and> params \<noteq> []
                          then dumps_compact P (JObj params) else []);
           message = timestamp @ method @ request_str @ query_string @ body_string
       in case ed25519_sign_b58 W private_key message of
            Inl err \<Rightarrow> raise (ValueError (''Error creating signature: '' @ err))
          | Inr signature \<Rightarrow> ret (signature, timestamp)))"

subsection \<open>Client\<close>

record PacificaClient =
  pc_api_key :: string
  pc_private_key :: string
  pc_account_address :: "string option"
  pc_base_url :: string

definition pacifica_base_url :: string where
  "pacifica_base_url = ''https://api.pacifica.fi/api/v1''"

definition new_PacificaClient :: "string \<Rightarrow> string \<Rightarrow> string option \<Rightarrow> pyexn + PacificaClient" where
  "new_PacificaClient api_key private_key account_address =
     bindS (check_api_keys api_key private_key)
       (\<lambda>_. Inr \<lparr>pc_api_key = api_key, pc_private_key = private_key,
                 pc_account_address = account_address, pc_base_url = pacifica_base_url\<rparr>)"

definition error_dict :: "string \<Rightarrow> json" where
  "error_dict msg = JObj [(''error'', JStr msg)]"

text \<open>
  \<^verbatim>\<open>_request\<close> in two parts: \<open>pacifica_send\<close> is what follows the signing (headers,
  the call of \<^verbatim>\<open>requests\<close>, and the handlers that turn every failure into an
  \<^verbatim>\<open>{"error": ...}\<close> dict; the \<^verbatim>\<open>JSONDecodeError\<close> of \<^verbatim>\<open>requests\<close> is a
  \<^verbatim>\<open>RequestException\<close> and is caught by that handler).
\<close>

definition pacifica_send ::
  "World \<Rightarrow> PacificaClient \<Rightarrow> string \<Rightarrow> string \<Rightarrow> (string \<times> json) list \<Rightarrow> string \<Rightarrow> string
     \<Rightarrow> json io" where
  "pacifica_send W c method request_str params signature timestamp =
     (let headers = [(''Content-Type'', ''application/json''),
                     (''X-PACIFICA-API-KEY'', pc_api_key c),
                     (''X-PACIFICA-SIGNATURE'', signature),
                     (''X-PACIFICA-TIMESTAMP'', timestamp)];
          url = pc_base_url c @ request_str;
          answer = (\<lambda>rq s.
            case http W rq s of
              (Inl e, s') \<Rightarrow> (Inr (error_dict (''Request Error: '' @ str_exn e)), s')
            | (Inr resp, s') \<Rightarrow>
                (case status_error resp of
                   Some http_err \<Rightarrow> (Inr (error_dict (''HTTP Error: '' @ http_err)), s')
                 | None \<Rightarrow>
                     (case body resp of
                        Inl err \<Rightarrow> (Inr (error_dict (''Request Error: '' @ err)), s')
                      | Inr j \<Rightarrow> (Inr j, s'))))
      in if method = ''GET'' then answer (Request ''GET'' url (Some headers) (Some (JObj params)) None)
         else if method = ''POST'' then answer (Request ''POST'' url (Some headers) None (Some (JObj params)))
         else if method = ''DELETE'' then answer (Request ''DELETE'' url (Some headers) (Some (JObj params)) None)
         else ret (error_dict (''Unsupported method: '' @ method)))"

definition pacifica_request ::
  "World \<Rightarrow> ('a Python_scheme) \<Rightarrow> PacificaClient \<Rightarrow> string \<Rightarrow> string \<Rightarrow> (string \<times> json) list
     \<Rightarrow> json io" where
  "pacifica_request W P c method request_str params =
     (\<lambda>s. case create_signature W P (pc_private_key c) request_str method params s of
             (Inl e, s') \<Rightarrow>
               if is_ValueError e then (Inr (error_dict (str_exn e)), s') else (Inl e, s')
           | (Inr st, s') \<Rightarrow> pacifica_send W c method request_str params (fst st) (snd st) s')"

definition address_json :: "PacificaClient \<Rightarrow> json" where
  "address_json c = (case pc_account_address c of None \<Rightarrow> JNull | Some addr \<Rightarrow> JStr addr)"

definition get_server_time :: "World \<Rightarrow> ('a Python_scheme) \<Rightarrow> PacificaClient \<Rightarrow> json io" where
  "get_server_time W P c = pacifica_request W P c ''GET'' ''/utils/server_time'' []"

definition get_market_summary ::
  "World \<Rightarrow> ('a Python_scheme) \<Rightarrow> PacificaClient \<Rightarrow> string \<Rightarrow> json io" where
  "get_market_summary W P c market_name =
     pacifica_request W P c ''GET'' (''/markets/'' @ market_name @ ''/summary'') []"

definition get_collateral ::
  "World \<Rightarrow> ('a Python_scheme) \<Rightarrow> PacificaClient \<Rightarrow> string \<Rightarrow> json io" where
  "get_collateral W P c token_name =
     pacifica_request W P c ''GET'' ''/collateral''
       [(''token_name'', JStr token_name), (''account_address'', address_json c)]"

definition pacifica_update_collateral ::
  "World \<Rightarrow> ('a Python_scheme) \<Rightarrow> PacificaClient \<Rightarrow> string \<Rightarrow> int \<Rightarrow> json io" where
  "pacifica_update_collateral W P c token_name lev =
     pacifica_request W P c ''POST'' ''/collateral''
       [(''token_name'', JStr token_name), (''account_address'', address_json c),
        (''leverage'', JInt lev)]"

definition pacifica_get_positions ::
  "World \<Rightarrow> ('a Python_scheme) \<Rightarrow> PacificaClient \<Rightarrow> string \<Rightarrow> json io" where
  "pacifica_get_positions W P c market_name =
     pacifica_request W P c ''GET'' ''/positions''
       ([(''account_address'', address_json c)]
        @ (if market_name \<noteq> [] then [(''market_name'', JStr market_name)] else []))"

definition pacifica_get_orders ::
  "World \<Rightarrow> ('a Python_scheme) \<Rightarrow> PacificaClient \<Rightarrow> string \<Rightarrow> string \<Rightarrow> json io" where
  "pacifica_get_orders W P c market_name status =
     pacifica_request W P c ''GET'' ''/orders''
       ([(''market_name'', JStr market_name), (''account_address'', address_json c)]
        @ (if status \<noteq> [] then [(''status'', JStr status)] else []))"

definition pacifica_post_order ::
  "World \<Rightarrow> ('a Python_scheme) \<Rightarrow> PacificaClient \<Rightarrow> string \<Rightarrow> string \<Rightarrow> string \<Rightarrow> real
     \<Rightarrow> string option \<Rightarrow> json io" where
  "pacifica_post_order W P c market_name side sdk_type order_size price_str =
     pacifica_request W P c ''POST'' ''/orders''
       ([(''market_name'', JStr market_name),
         (''side'', JStr side),
         (''type'', JStr sdk_type),
         (''size'', JFloat order_size),
         (''account_address'', address_json c),
         (''time_in_force'', JStr ''GTC''),
         (''reduce_only'', JBool False)]
        @ (case price_str of
             None \<Rightarrow> []
           | Some p \<Rightarrow> if p \<noteq> [] then [(''price'', JStr p)] else []))"

definition pacifica_delete_order ::
  "World \<Rightarrow> ('a Python_scheme) \<Rightarrow> PacificaClient \<Rightarrow> string \<Rightarrow> int \<Rightarrow> json io" where
  "pacifica_delete_order W P c market_name oid =
     pacifica_request W P c ''DELETE'' ''/orders''
       [(''market_name'', JStr market_name), (''order_id'', JInt oid),
        (''account_address'', address_json c)]"

definition pacifica_delete_orders ::
  "World \<Rightarrow> ('a Python_scheme) \<Rightarrow> PacificaClient \<Rightarrow> string \<Rightarrow> json io" where
  "pacifica_delete_orders W P c market_name =
     pacifica_request W P c ''DELETE'' ''/orders/all''
       [(''market_name'', JStr market_name), (''account_address'', address_json c)]"

subsection \<open>Adapter\<close>

record PacificaAPI =
  p_name :: string
  p_client :: "PacificaClient option"
  p_timer_active :: bool
  p_symbol :: SupportedSymbol
  p_market_name :: string

definition pacifica_log :: "PacificaAPI \<Rightarrow> string \<Rightarrow> LogLevel \<Rightarrow> adapter_event" where
  "pacifica_log a msg lvl = log_message (''['' @ p_name a @ ''] '' @ msg) lvl"

text \<open>
  \<^verbatim>\<open>connect\<close>. The body of the \<^verbatim>\<open>try\<close> returns the client and whether the server time
  came back; the client is kept only in that case.
\<close>

definition pacifica_connect_try ::
  "World \<Rightarrow> ('a Python_scheme) \<Rightarrow> PacificaAPI \<Rightarrow> ApiCredentials \<Rightarrow> (PacificaClient \<times> bool) io" where
  "pacifica_connect_try W P a creds =
     seq (lift (new_PacificaClient (apiKey creds) (apiSecret creds) (accountAddress creds))) (\<lambda>c.
     seq (get_server_time W P c) (\<lambda>response.
     seq (lift (py_contains ''serverTime'' response)) (\<lambda>ok.
       if ok
       then seq (lift (py_getitem response ''serverTime'')) (\<lambda>t.
            seq (emit (pacifica_log a (''Connection successful. Server time: '' @ py_str P t) SUCCESS))
              (\<lambda>_. ret (c, True)))
       else seq (lift (py_get response ''error'' (JStr ''Unknown error''))) (\<lambda>error_msg.
            seq (emit (pacifica_log a (''Connection failed: '' @ py_str P error_msg) ERROR))
              (\<lambda>_. ret (c, False))))))"

definition pacifica_connect ::
  "World \<Rightarrow> ('a Python_scheme) \<Rightarrow> PacificaAPI \<Rightarrow> ApiCredentials \<Rightarrow> Exec
     \<Rightarrow> bool \<times> PacificaAPI \<times> Exec" where
  "pacifica_connect W P a creds s =
     (let s1 = emits (pacifica_log a (''Connecting with API Key '' @ take 5 (apiKey creds) @ ''...'') INFO) s
      in case pacifica_connect_try W P a creds s1 of
           (Inr (c, True), s2) \<Rightarrow> (True, a\<lparr>p_client := Some c\<rparr>, s2)
         | (Inr (c, False), s2) \<Rightarrow> (False, a\<lparr>p_client := None\<rparr>, s2)
         | (Inl e, s2) \<Rightarrow>
             (False, a\<lparr>p_client := None\<rparr>,
              emits (pacifica_log a (''Connection error: '' @ str_exn e) ERROR) s2))"

definition pacifica_stop_streaming :: "PacificaAPI \<Rightarrow> Exec \<Rightarrow> PacificaAPI \<times> Exec" where
  "pacifica_stop_streaming a s =
     (a\<lparr>p_timer_active := False\<rparr>, emits (pacifica_log a ''Real-data polling stopped.'' INFO) s)"

text \<open>
  The translation of the position payload in \<^verbatim>\<open>_poll_data\<close>:
  \<^verbatim>\<open>pos = position_data['data'][0] if position_data['data'] else None\<close>, then the
  \<^verbatim>\<open>if pos\<close>/\<^verbatim>\<open>else\<close> that sets \<^verbatim>\<open>pos_qty\<close>, \<^verbatim>\<open>pos_dir\<close>, \<^verbatim>\<open>pos_entry\<close>, \<^verbatim>\<open>pnl\<close>.
\<close>

definition pacifica_position :: "('a Python_scheme) \<Rightarrow> json \<Rightarrow> pyexn + (real Position \<times> real)" where
  "pacifica_position P position_data =
     bindS (py_getitem position_data ''data'') (\<lambda>d.
     bindS (if truthy d then bindS (py_getitem0 d) (\<lambda>x. Inr (Some x)) else Inr None) (\<lambda>pos.
       case pos of
         None \<Rightarrow> Inr (\<lparr>direction = NONE, quantity = 0, entryPrice = 0\<rparr>, 0)
       | Some p \<Rightarrow>
           if truthy p
           then bindS (bindS (py_getitem p ''positionSize'') (py_float P)) (\<lambda>pos_qty.
                bindS (py_getitem p ''side'') (\<lambda>side.
                bindS (bindS (py_getitem p ''entryPrice'') (py_float P)) (\<lambda>pos_entry.
                bindS (bindS (py_getitem p ''unrealisedPnl'') (py_float P)) (\<lambda>pnl_value.
                  Inr (\<lparr>direction = (if side = JStr ''LONG'' then LONG else SHORT),
                        quantity = pos_qty, entryPrice = pos_entry\<rparr>, pnl_value)))))
           else Inr (\<lparr>direction = NONE, quantity = 0, entryPrice = 0\<rparr>, 0)))"

definition pacifica_order :: "('a Python_scheme) \<Rightarrow> json \<Rightarrow> pyexn + Order" where
  "pacifica_order P od =
     bindS (py_getitem od ''orderId'') (\<lambda>oid.
     bindS (py_getitem od ''type'') (\<lambda>ty.
     bindS (py_getitem od ''side'') (\<lambda>side.
     bindS (bindS (py_getitem od ''orderSize'') (py_float P)) (\<lambda>sz.
     bindS (bindS (py_getitem od ''filledSize'') (py_float P)) (\<lambda>filled.
     bindS (bindS (py_getitem od ''price'') (py_float P)) (\<lambda>pr.
     bindS (bindS (py_getitem od ''createdAt'') (py_int P)) (\<lambda>created.
       Inr \<lparr>order_id = py_str P oid, exchangeId = PACIFICA,
            order_type = (if ty = JStr ''LIMIT'' then LMT else MKT),
            order_direction = (if side = JStr ''LONG'' then LONG else SHORT),
            order_quantity = sz, filledQuantity = filled, order_price = pr,
            order_timestamp = created\<rparr>)))))))"

text \<open>
  \<^verbatim>\<open>if 'error' in data: raise Exception(f"... poll failed: {data['error']}")\<close>, the check
  after each fetch of the poll.
\<close>

definition raise_if_error :: "('a Python_scheme) \<Rightarrow> string \<Rightarrow> json \<Rightarrow> pyexn + unit" where
  "raise_if_error P what data =
     bindS (py_contains ''error'' data) (\<lambda>has_error.
       if has_error
       then bindS (py_getitem data ''error'') (\<lambda>err. Inl (PyException (what @ py_str P err)))
       else Inr ())"

definition pacifica_poll_try ::
  "World \<Rightarrow> ('a Python_scheme) \<Rightarrow> PacificaAPI \<Rightarrow> PacificaClient \<Rightarrow> unit io" where
  "pacifica_poll_try W P a c =
     seq (get_market_summary W P c (p_market_name a)) (\<lambda>summary_data.
     seq (lift (raise_if_error P ''Price poll failed: '' summary_data)) (\<lambda>_.
     seq (lift (bindS (bindS (py_getitem summary_data ''data'') (\<lambda>d. py_getitem d ''markPrice''))
                  (py_float P))) (\<lambda>price.
     seq (emit (price_update PACIFICA price)) (\<lambda>_.
     seq (get_collateral W P c ''USDC'') (\<lambda>collateral_data.
     seq (lift (raise_if_error P ''Collateral poll failed: '' collateral_data)) (\<lambda>_.
     seq (pacifica_get_positions W P c (p_market_name a)) (\<lambda>position_data.
     seq (lift (raise_if_error P ''Position poll failed: '' position_data)) (\<lambda>_.
     seq (lift (bindS (bindS (py_getitem collateral_data ''data'') (\<lambda>d. py_getitem d ''balance''))
                  (py_float P))) (\<lambda>bal.
     seq (lift (bindS (bindS (bindS (py_getitem collateral_data ''data'') (\<lambda>d. py_getitem d ''leverage''))
                  (py_float P)) (\<lambda>x. Inr (int_of_float x)))) (\<lambda>lev.
     seq (lift (pacifica_position P position_data)) (\<lambda>pp.
     seq (emit (state_update PACIFICA
                  \<lparr>state_name = p_name a, position = fst pp, pnl = snd pp, balance = bal,
                   currency = ''USDC'', leverage = lev\<rparr>)) (\<lambda>_.
     seq (pacifica_get_orders W P c (p_market_name a) ''OPEN'') (\<lambda>orders_data.
     seq (lift (raise_if_error P ''Orders poll failed: '' orders_data)) (\<lambda>_.
     seq (lift (bindS (bindS (py_getitem orders_data ''data'') py_iter) (mapS (pacifica_order P))))
       (\<lambda>py_orders. emit (orders_update PACIFICA py_orders))))))))))))))))"

definition pacifica_poll_data ::
  "World \<Rightarrow> ('a Python_scheme) \<Rightarrow> PacificaAPI \<Rightarrow> Exec \<Rightarrow> PacificaAPI \<times> Exec" where
  "pacifica_poll_data W P a s =
     (case p_client a of
        None \<Rightarrow> pacifica_stop_streaming a s
      | Some c \<Rightarrow>
          if \<not> p_timer_active a then pacifica_stop_streaming a s
          else (case pacifica_poll_try W P a c s of
                  (Inr u, s') \<Rightarrow> (a, s')
                | (Inl e, s') \<Rightarrow>
                    if is_RequestException e
                    then pacifica_stop_streaming a
                           (emits (pacifica_log a (''Network error during poll: '' @ str_exn e) ERROR) s')
                    else (a, emits (pacifica_log a (''Data poll failed: '' @ str_exn e) ERROR) s')))"

definition pacifica_start_streaming ::
  "World \<Rightarrow> ('a Python_scheme) \<Rightarrow> PacificaAPI \<Rightarrow> SupportedSymbol \<Rightarrow> Exec \<Rightarrow> PacificaAPI \<times> Exec" where
  "pacifica_start_streaming W P a smb s =
     (case p_client a of
        None \<Rightarrow> (a, emits (pacifica_log a ''Cannot start streaming: Not connected.'' ERROR) s)
      | Some c \<Rightarrow>
          (let a1 = a\<lparr>p_symbol := smb, p_market_name := SupportedSymbol_value smb @ ''-PERP''\<rparr>;
               s1 = emits (pacifica_log a1 (''Real-data polling started for '' @ p_market_name a1 @ ''...'')
                             INFO) s
           in if \<not> p_timer_active a1
              then (case pacifica_poll_data W P a1 s1 of (a2, s2) \<Rightarrow> (a2\<lparr>p_timer_active := True\<rparr>, s2))
              else (a1, s1)))"

text \<open>
  The four commands: as for Lighter, with the response checked for an \<^verbatim>\<open>error\<close> key
  (\<^verbatim>\<open>if 'error' in response: raise Exception(response['error'])\<close>).
\<close>

definition pacifica_command ::
  "('a Python_scheme) \<Rightarrow> PacificaAPI \<Rightarrow> json io \<Rightarrow> string \<Rightarrow> string \<Rightarrow> Exec \<Rightarrow> PacificaAPI \<times> Exec" where
  "pacifica_command P a call ok_msg fail_msg s =
     (case seq call (\<lambda>response. lift (raise_if_error P [] response)) s of
        (Inr u, s') \<Rightarrow> (a, emits (singleShot 500) (emits (pacifica_log a ok_msg SUCCESS) s'))
      | (Inl e, s') \<Rightarrow> (a, emits (pacifica_log a (fail_msg @ str_exn e) ERROR) s'))"

definition pacifica_set_leverage ::
  "World \<Rightarrow> ('a Python_scheme) \<Rightarrow> PacificaAPI \<Rightarrow> SupportedSymbol \<Rightarrow> int \<Rightarrow> Exec
     \<Rightarrow> PacificaAPI \<times> Exec" where
  "pacifica_set_leverage W P a smb lev s =
     (case p_client a of
        None \<Rightarrow> (a, s)
      | Some c \<Rightarrow>
          pacifica_command P a
            (pacifica_update_collateral W P c ''USDC'' lev)
            (''Leverage set to '' @ str_int lev @ ''x.'')
            ''Set leverage failed: ''
            (emits (pacifica_log a (''Setting leverage to '' @ str_int lev @ ''x...'') INFO) s))"

definition pacifica_create_order ::
  "World \<Rightarrow> ('a Python_scheme) \<Rightarrow> PacificaAPI \<Rightarrow> SupportedSymbol \<Rightarrow> OrderType \<Rightarrow> Direction
     \<Rightarrow> real \<Rightarrow> real option \<Rightarrow> Exec \<Rightarrow> PacificaAPI \<times> Exec" where
  "pacifica_create_order W P a smb ot dir qty price s =
     (case p_client a of
        None \<Rightarrow> (a, s)
      | Some c \<Rightarrow>
          (let market = SupportedSymbol_value smb @ ''-PERP'';
               side = (if dir = LONG then ''LONG'' else ''SHORT'');
               sdk_order_type = (if ot = LMT then ''LIMIT'' else ''MARKET'');
               log_msg = ''Create '' @ OrderType_value ot @ '' '' @ Direction_value dir @ '' ''
                           @ str_float P qty @ '' @ ''
                           @ (case price_text P price of None \<Rightarrow> ''MKT'' | Some t \<Rightarrow> t)
           in pacifica_command P a
                (pacifica_post_order W P c market side sdk_order_type qty (price_text P price))
                ''Order submitted successfully.''
                ''Order creation failed: ''
                (emits (pacifica_log a log_msg INFO) s)))"

definition pacifica_cancel_order ::
  "World \<Rightarrow> ('a Python_scheme) \<Rightarrow> PacificaAPI \<Rightarrow> SupportedSymbol \<Rightarrow> string \<Rightarrow> Exec
     \<Rightarrow> PacificaAPI \<times> Exec" where
  "pacifica_cancel_order W P a smb oid s =
     (case p_client a of
        None \<Rightarrow> (a, s)
      | Some c \<Rightarrow>
          pacifica_command P a
            (seq (lift (py_int P (JStr oid)))
               (\<lambda>n. pacifica_delete_order W P c (SupportedSymbol_value smb @ ''-PERP'') n))
            (''Order '' @ oid @ '' cancelled.'')
            ''Cancel order failed: ''
            (emits (pacifica_log a (''Cancelling order: '' @ oid) INFO) s))"

definition pacifica_cancel_all_orders ::
  "World \<Rightarrow> ('a Python_scheme) \<Rightarrow> PacificaAPI \<Rightarrow> SupportedSymbol \<Rightarrow> Exec \<Rightarrow> PacificaAPI \<times> Exec" where
  "pacifica_cancel_all_orders W P a smb s =
     (case p_client a of
        None \<Rightarrow> (a, s)
      | Some c \<Rightarrow>
          pacifica_command P a
            (pacifica_delete_orders W P c (SupportedSymbol_value smb @ ''-PERP''))
            ''All orders cancelled.''
            ''Cancel all orders failed: ''
            (emits (pacifica_log a (''Cancelling ALL orders for '' @ SupportedSymbol_value smb @ ''...'')
                      WARN) s))"

section \<open>Observations on an execution of an adapter\<close>

text \<open>
  What a step has added to the record of effects, the account states among events, and
  the invariant of a position in the words of the specification: the direction is NONE
  exactly when the quantity is 0.
\<close>

definition added_events :: "Exec \<Rightarrow> Exec \<Rightarrow> adapter_event list" where
  "added_events s s' = drop (length (events s)) (events s')"


definition position_invariant :: "real Position \<Rightarrow> bool" where
  "position_invariant p = ((direction p = NONE) = (quantity p = 0))"

fun state_kept :: "adapter_event \<Rightarrow> bool" where
  "state_kept (state_update x st) = position_invariant (position st)"
| "state_kept _ = True"

fun is_error_log :: "adapter_event \<Rightarrow> bool" where
  "is_error_log (log_message msg lvl) = (lvl = ERROR)"
| "is_error_log _ = False"

text \<open>
  The outcomes of the requests of a step: the \<open>i\<close>-th request sent from a state that has
  sent \<open>k\<close> requests is request \<open>k + i\<close> of the execution, and its outcome is the world's.
  A request is answered when a response with a success status and a JSON body arrived;
  the two failures the handlers of a poll tell apart are the connection error
  (\<^verbatim>\<open>requests\<close> raises) and the HTTP error status.
\<close>

definition outcomes :: "World \<Rightarrow> nat \<Rightarrow> request list \<Rightarrow> (string + response) list" where
  "outcomes W k rqs = map (\<lambda>(i, rq). send W i rq) (enumerate k rqs)"

definition cycle_outcomes :: "World \<Rightarrow> Exec \<Rightarrow> Exec \<Rightarrow> (string + response) list" where
  "cycle_outcomes W s s' = outcomes W (requests_sent s) (sent_requests (added_events s s'))"

fun answered :: "string + response \<Rightarrow> bool" where
  "answered (Inl m) = False"
| "answered (Inr resp) =
     (status_error resp = None \<and> (case body resp of Inl err \<Rightarrow> False | Inr j \<Rightarrow> True))"

fun connection_error :: "string + response \<Rightarrow> bool" where
  "connection_error (Inl m) = True"
| "connection_error (Inr resp) = False"

fun http_error :: "string + response \<Rightarrow> bool" where
  "http_error (Inl m) = False"
| "http_error (Inr resp) = (status_error resp \<noteq> None)"

text \<open>
  Two properties of computations, used to follow a poll through its fetches. A result is
  \<open>harmless\<close> when it is not a \<^verbatim>\<open>RequestException\<close>. A computation is \<open>tracked\<close> when, from
  every state, it only adds events, all of which satisfy \<open>Q\<close>; it counts the requests it
  sends; every request it sends but the last is answered; if it returns, the last is
  answered too; and if it raises, the exception is a \<^verbatim>\<open>RequestException\<close> exactly when
  its last request met a connection error.
\<close>

definition harmless :: "pyexn + 'a \<Rightarrow> bool" where
  "harmless r = (case r of Inl e \<Rightarrow> \<not> is_RequestException e | Inr x \<Rightarrow> True)"

definition tracked :: "World \<Rightarrow> (adapter_event \<Rightarrow> bool) \<Rightarrow> 'a io \<Rightarrow> bool" where
  "tracked W Q m =
     (\<forall>s. \<exists>evs.
        events (snd (m s)) = events s @ evs
      \<and> requests_sent (snd (m s)) = requests_sent s + length (sent_requests evs)
      \<and> list_all Q evs
      \<and> list_all answered (butlast (outcomes W (requests_sent s) (sent_requests evs)))
      \<and> (case fst (m s) of
            Inr x \<Rightarrow> list_all answered (outcomes W (requests_sent s) (sent_requests evs))
          | Inl e \<Rightarrow>
              is_RequestException e
                = (sent_requests evs \<noteq> []
                   \<and> connection_error (last (outcomes W (requests_sent s) (sent_requests evs))))))"

section \<open>Example values\<close>

definition example_state :: "Direction \<Rightarrow> real \<Rightarrow> real ExchangeState" where
  "example_state d q =
     \<lparr>state_name = ''x'', position = \<lparr>direction = d, quantity = q, entryPrice = 0\<rparr>,
      pnl = 0, balance = 0, currency = ''USDT'', leverage = 1\<rparr>"

definition example_worker ::
  "real ExchangeState option \<Rightarrow> real ExchangeState option \<Rightarrow> real AutoBalanceWorker" where
  "example_worker sa sb =
     \<lparr>api_a = Some ''Pacifica'', api_b = Some ''Lighter'', interval = 3, symbol = BTC,
      state_a = sa, state_b = sb\<rparr>"

text \<open>
  Instances of the parameters. The floats of the examples are real numbers with exact
  arithmetic, which is the arithmetic of doubles on the values the examples compute with
  (0, 1/2, 1, 2 and 3; the comparisons with the tolerance have the outcome they have for
  doubles); the conversions agree with Python's on the few strings the examples use; the
  texts of floats and containers are placeholders; and the adapter's \<^verbatim>\<open>create_order\<close>
  returns normally.
\<close>

definition example_floats :: "real Floats" where
  "example_floats =
     \<lparr>fmt_5f = (\<lambda>r. ''?''), str_float = (\<lambda>r. ''?''),
      float_zero = 0, float_tolerance = 1 / 1000000, float_tenth = 1 / 10,
      float_neg = (\<lambda>x. - x), float_add = (\<lambda>x y. x + y), float_abs = (\<lambda>x. \<bar>x\<bar>),
      float_gt = (\<lambda>x y. x > y), float_lt = (\<lambda>x y. x < y),
      sleep_secs = (\<lambda>x. x)\<rparr>"

definition order_returns :: "real create_order_behaviour" where
  "order_returns = (\<lambda>b smb ot dir qty. None)"

definition example_python :: Python where
  "example_python =
     \<lparr>fmt_5f = (\<lambda>r. ''?''), str_float = (\<lambda>r. ''?''),
      float_of_str = map_of [(''0'', 0), (''0.5'', 1 / 2), (''1'', 1), (''100'', 100)],
      int_of_str = map_of [(''0'', 0), (''1'', 1), (''42'', 42)],
      repr_json = (\<lambda>j. ''?'')\<rparr>"

text \<open>A world in which the network is down: every request raises a connection error.\<close>

definition example_world :: World where
  "example_world =
     \<lparr>now_ms = (\<lambda>k. 1700000000000 + int k),
      send = (\<lambda>k rq. Inl ''Connection refused''),
      hmac_sha256_hex = (\<lambda>key msg. ''00''),
      ed25519_sign_b58 = (\<lambda>key msg. Inr ''1111'')\<rparr>"

text \<open>A world in which every request is answered with the same JSON object.\<close>

definition example_server :: World where
  "example_server =
     \<lparr>now_ms = (\<lambda>k. 1700000000000 + int k),
      send = (\<lambda>k rq. Inr \<lparr>status_error = None,
                              body = Inr (JObj [(''serverTime'', JInt 1700000000000),
                                                (''balance'', JStr ''100'')])\<rparr>),
      hmac_sha256_hex = (\<lambda>key msg. ''00''),
      ed25519_sign_b58 = (\<lambda>key msg. Inr ''1111'')\<rparr>"

definition example_lighter :: LighterAPI where
  "example_lighter =
     \<lparr>l_name = ''Lighter'', l_client = None, l_timer_active = False, l_symbol = BTC,
      l_market_name = ''BTC-PERP''\<rparr>"

definition example_pacifica :: PacificaAPI where
  "example_pacifica =
     \<lparr>p_name = ''Pacifica'', p_client = None, p_timer_active = False, p_symbol = BTC,
      p_market_name = ''BTC-PERP''\<rparr>"


definition example_credentials :: ApiCredentials where
  "example_credentials =
     \<lparr>apiKey = ''key-0001'', apiSecret = ''secret'',
      accountAddress = Some ''wallet'', accountId = Some 7,
      l1Address = Some ''0xaa''\<rparr>"

definition example_pacifica_client :: PacificaClient where
  "example_pacifica_client =
     \<lparr>pc_api_key = ''key-0001'', pc_private_key = ''secret'',
      pc_account_address = Some ''wallet'',
      pc_base_url = pacifica_base_url\<rparr>"

definition example_lighter_client :: LighterClient where
  "example_lighter_client =
     \<lparr>lc_api_key = ''key-0001'', lc_api_secret = ''secret'', lc_account_id = ''7'',
      lc_l1_address = ''0xaa'',
      lc_base_url = lighter_base_url\<rparr>"



text \<open>
  The message to sign in the words of the specification: timestamp, upper-case method,
  path and the compact JSON body (empty when there is no body).
\<close>

definition spec_signing_message ::
  "('a Python_scheme) \<Rightarrow> string \<Rightarrow> string \<Rightarrow> string \<Rightarrow> json option \<Rightarrow> string" where
  "spec_signing_message P timestamp method path data =
     timestamp @ upper method @ path @ (case data of None \<Rightarrow> [] | Some d \<Rightarrow> dumps_compact P d)"

definition example_position_payload :: json where
  "example_position_payload =
     JObj [(''data'',
            JArr [JObj [(''positionSize'', JStr ''0''), (''side'', JStr ''LONG''),
                        (''entryPrice'', JStr ''0''), (''unrealisedPnl'', JStr ''0'')]])]"

definition example_body :: json where
  "example_body = JObj [(''account_id'', JStr ''7''), (''market'', JStr ''BTC-PERP'')]"

section \<open>Theorems about the state store\<close>

lemma filter_other_exchange:
  "y \<noteq> x \<Longrightarrow>
   filter (\<lambda>od. exchangeId od = y) (filter (\<lambda>od. exchangeId od \<noteq> x) xs)
     = filter (\<lambda>od. exchangeId od = y) xs"
  by (induction xs) auto

lemma filter_same_exchange:
  "filter (\<lambda>od. exchangeId od = x) (filter (\<lambda>od. exchangeId od \<noteq> x) xs) = []"
  by (induction xs) auto

lemma filter_all_tagged:
  "\<forall>od \<in> set orders. exchangeId od = x \<Longrightarrow> filter (\<lambda>od. exchangeId od = x) orders = orders"
  by (induction orders) auto

lemma filter_none_tagged:
  "\<forall>od \<in> set orders. exchangeId od = x \<Longrightarrow> y \<noteq> x
     \<Longrightarrow> filter (\<lambda>od. exchangeId od = y) orders = []"
  by (induction orders) auto

text \<open>
  C7. An open-orders event for exchange identity \<open>x\<close> (a list of orders all tagged
  \<open>x\<close>, as the adapters build it) replaces the stored list for \<open>x\<close> by the event's
  list, and the stored list of every other exchange identity is the same list as before:
  same orders, same order, same multiplicity.
\<close>

theorem on_orders_update_wholesale:
  assumes tagged: "\<forall>od \<in> set orders. exchangeId od = x"
  shows "orders_of (on_orders_update w x orders) x = orders
       \<and> (\<forall>y. y \<noteq> x \<longrightarrow> orders_of (on_orders_update w x orders) y = orders_of w y)"
proof (intro conjI allI impI)
  show "orders_of (on_orders_update w x orders) x = orders"
    using filter_all_tagged [OF tagged]
    by (simp add: orders_of_def on_orders_update_def filter_same_exchange del: filter_filter)
next
  fix y assume "y \<noteq> x"
  then show "orders_of (on_orders_update w x orders) y = orders_of w y"
    using filter_none_tagged [OF tagged]
    by (simp add: orders_of_def on_orders_update_def filter_other_exchange del: filter_filter)
qed

theorem on_orders_update_wholesale_witness:
  "orders_of (on_orders_update
      \<lparr>exchange_states = Map.empty,
       open_orders =
         [\<lparr>order_id = ''7'', exchangeId = PACIFICA, order_type = LMT, order_direction = LONG,
           order_quantity = 1, filledQuantity = 0, order_price = 100, order_timestamp = 1\<rparr>,
          \<lparr>order_id = ''8'', exchangeId = LIGHTER, order_type = LMT, order_direction = SHORT,
           order_quantity = 2, filledQuantity = 0, order_price = 101, order_timestamp = 2\<rparr>],
       prices = Map.empty, selected_A = None, selected_B = None\<rparr>
      LIGHTER
      [\<lparr>order_id = ''9'', exchangeId = LIGHTER, order_type = MKT, order_direction = LONG,
        order_quantity = 3, filledQuantity = 1, order_price = 99, order_timestamp = 3\<rparr>])
     PACIFICA
   = [\<lparr>order_id = ''7'', exchangeId = PACIFICA, order_type = LMT, order_direction = LONG,
       order_quantity = 1, filledQuantity = 0, order_price = 100, order_timestamp = 1\<rparr>]"
proof -
  have tagged: "\<forall>od \<in> set
      [\<lparr>order_id = ''9'', exchangeId = LIGHTER, order_type = MKT, order_direction = LONG,
        order_quantity = 3, filledQuantity = 1, order_price = 99, order_timestamp = 3\<rparr>].
      exchangeId od = LIGHTER"
    by simp
  show ?thesis
    using on_orders_update_wholesale [OF tagged]
    by (simp add: orders_of_def)
qed

section \<open>Theorems about the reconciliation worker\<close>

lemma check_balance_evaluating:
  assumes "api_b w = Some b" and "state_a w = Some sa" and "state_b w = Some sb"
  shows "check_balance F order_exn w =
     (if float_gt F
           (float_abs F (float_add F (signed_quantity F (position sa)) (signed_quantity F (position sb))))
           (float_tolerance F)
      then Inr ([LogMessage
                   (''[AutoBalance] Discrepancy detected (A: ''
                      @ fmt_5f F (signed_quantity F (position sa))
                      @ '', B: '' @ fmt_5f F (signed_quantity F (position sb))
                      @ ''). Balancing on '' @ b @ ''...'')
                   WARN,
                 CreateOrder b (symbol w) MKT
                   (if float_gt F
                         (float_add F (signed_quantity F (position sa)) (signed_quantity F (position sb)))
                         (float_zero F)
                    then SHORT else LONG)
                   (float_abs F
                      (float_add F (signed_quantity F (position sa)) (signed_quantity F (position sb))))]
                @ (case order_exn b (symbol w) MKT
                     (if float_gt F
                           (float_add F (signed_quantity F (position sa)) (signed_quantity F (position sb)))
                           (float_zero F)
                      then SHORT else LONG)
                     (float_abs F
                        (float_add F (signed_quantity F (position sa)) (signed_quantity F (position sb)))) of
                     None \<Rightarrow>
                       [LogMessage
                          (''['' @ b @ ''] Auto-balance MKT order submitted: ''
                             @ Direction_value
                                 (if float_gt F
                                       (float_add F (signed_quantity F (position sa))
                                          (signed_quantity F (position sb)))
                                       (float_zero F)
                                  then SHORT else LONG)
                             @ '' ''
                             @ fmt_5f F
                                 (float_abs F
                                    (float_add F (signed_quantity F (position sa))
                                       (signed_quantity F (position sb)))))
                          SUCCESS,
                        Sleep 3]
                   | Some e \<Rightarrow>
                       [LogMessage (''['' @ b @ ''] Auto-balance order failed: '' @ e) ERROR]))
      else Inr [])"
proof -
  have sq: "\<And>p. (if direction p = LONG then quantity p
                else if direction p = SHORT then float_neg F (quantity p) else float_zero F)
              = signed_quantity F p"
    by (simp add: signed_quantity_def split: Direction.splits)
  show ?thesis
    unfolding check_balance_def Let_def sq
    using assms by simp
qed

text \<open>
  C1. On a tick that evaluates two account states (adapter B present), with the signed
  quantity of a position \<open>+quantity\<close> for LONG, \<open>-quantity\<close> for SHORT and \<open>0\<close> for
  NONE, and \<open>d\<close> the sum of the two signed quantities, all in the floating-point arithmetic
  of the program, whatever that arithmetic is: when the test \<^verbatim>\<open>abs(d) > 0.000001\<close> is
  false (so when \<open>abs(d) \<le> 0.000001\<close>, and when \<open>d\<close> is not a number) the worker makes no
  \<^verbatim>\<open>create_order\<close> call; when it is true the worker makes exactly one, on adapter B, of
  type MKT, with quantity \<^verbatim>\<open>abs(d)\<close> and direction SHORT if \<^verbatim>\<open>d > 0\<close>, else LONG, whether
  or not the call raises.
\<close>

theorem check_balance_correction:
  assumes "api_b w = Some b" and "state_a w = Some sa" and "state_b w = Some sb"
  shows "orders_issued (check_balance F order_exn w) =
     (let d = float_add F (signed_quantity F (position sa)) (signed_quantity F (position sb))
      in if float_gt F (float_abs F d) (float_tolerance F)
         then [CreateOrder b (symbol w) MKT
                 (if float_gt F d (float_zero F) then SHORT else LONG) (float_abs F d)]
         else [])"
proof (cases "float_gt F
           (float_abs F (float_add F (signed_quantity F (position sa)) (signed_quantity F (position sb))))
           (float_tolerance F)")
  case True
  then show ?thesis
    unfolding check_balance_evaluating [OF assms] Let_def orders_issued_def
    by (cases "order_exn b (symbol w) MKT
                 (if float_gt F
                       (float_add F (signed_quantity F (position sa)) (signed_quantity F (position sb)))
                       (float_zero F)
                  then SHORT else LONG)
                 (float_abs F
                    (float_add F (signed_quantity F (position sa)) (signed_quantity F (position sb))))")
       simp_all
next
  case False
  then show ?thesis
    unfolding check_balance_evaluating [OF assms] Let_def orders_issued_def
    by simp
qed

theorem check_balance_correction_witness:
  "orders_issued (check_balance example_floats order_returns
      (example_worker (Some (example_state SHORT (1/2))) (Some (example_state NONE 0))))
   = [CreateOrder ''Lighter'' BTC MKT LONG (1/2)]"
proof -
  let ?w = "example_worker (Some (example_state SHORT (1/2))) (Some (example_state NONE 0))"
  have b: "api_b ?w = Some ''Lighter''" by (simp add: example_worker_def)
  have sa: "state_a ?w = Some (example_state SHORT (1/2))" by (simp add: example_worker_def)
  have sb: "state_b ?w = Some (example_state NONE 0)" by (simp add: example_worker_def)
  have sym: "symbol ?w = BTC" by (simp add: example_worker_def)
  have qa: "signed_quantity example_floats (position (example_state SHORT (1/2))) = - (1/2)"
    by (simp add: signed_quantity_def example_state_def example_floats_def)
  have qb: "signed_quantity example_floats (position (example_state NONE 0)) = 0"
    by (simp add: signed_quantity_def example_state_def example_floats_def)
  show ?thesis
    using check_balance_correction [OF b sa sb, of example_floats order_returns]
    unfolding qa qb sym by (simp add: example_floats_def)
qed


lemma elapsed_append: "elapsed (xs @ ys) = elapsed xs + elapsed ys"
  by (simp add: elapsed_def)

lemma sleep_step_elapsed: "elapsed (tr @ [MSleep 100]) = elapsed tr + 100"
  by (simp add: elapsed_append) (simp add: elapsed_def)

lemma sleep_measure:
  assumes "elapsed tr < s"
  shows "nat \<lceil>(s - elapsed (tr @ [MSleep 100])) / 100\<rceil> < nat \<lceil>(s - elapsed tr) / 100\<rceil>"
proof -
  have eq: "(s - elapsed (tr @ [MSleep 100])) / 100 = (s - elapsed tr) / 100 - 1"
    unfolding sleep_step_elapsed by (simp add: field_simps)
  have c: "\<lceil>(s - elapsed tr) / 100 - 1\<rceil> = \<lceil>(s - elapsed tr) / 100\<rceil> - 1"
    by simp
  have "0 < \<lceil>(s - elapsed tr) / 100\<rceil>"
    using assms by (simp add: ceiling_less_iff)
  then show ?thesis unfolding eq c by linarith
qed

lemma sleep_loop_latency:
  assumes "0 < s"
  shows "sleep_loop F intv slept_time (Some s) tr = Some tr' \<Longrightarrow> elapsed tr < s + 100
           \<Longrightarrow> elapsed tr' < s + 100"
proof (induction "nat \<lceil>(s - elapsed tr) / 100\<rceil>" arbitrary: tr slept_time rule: less_induct)
  case less
  show ?case
  proof (cases "float_lt F slept_time intv \<and> is_running (Some s) tr")
    case False
    with less.prems show ?thesis by (subst (asm) sleep_loop.simps) auto
  next
    case True
    with assms have lt: "elapsed tr < s" by (simp add: is_running_def)
    from True less.prems(1)
    have rec: "sleep_loop F intv (float_add F slept_time (float_tenth F)) (Some s) (tr @ [MSleep 100])
                = Some tr'"
      by (subst (asm) sleep_loop.simps) simp
    from lt have "elapsed (tr @ [MSleep 100]) < s + 100"
      by (simp add: sleep_step_elapsed)
    from less.hyps [OF sleep_measure [OF lt] rec this] show ?thesis .
  qed
qed

lemma sleep_loop_returns:
  assumes "0 < s"
  shows "\<exists>tr'. sleep_loop F intv slept_time (Some s) tr = Some tr'"
proof (induction "nat \<lceil>(s - elapsed tr) / 100\<rceil>" arbitrary: tr slept_time rule: less_induct)
  case less
  show ?case
  proof (cases "float_lt F slept_time intv \<and> is_running (Some s) tr")
    case False
    then show ?thesis by (subst sleep_loop.simps) auto
  next
    case True
    with assms have lt: "elapsed tr < s" by (simp add: is_running_def)
    from less [OF sleep_measure [OF lt]] obtain tr' where
      "sleep_loop F intv (float_add F slept_time (float_tenth F)) (Some s) (tr @ [MSleep 100]) = Some tr'"
      by blast
    with True show ?thesis by (subst sleep_loop.simps) simp
  qed
qed

text \<open>
  C8. The flag is not polled every 100 ms in every state of the loop. A stop request made
  1 ms after the loop has started ends the loop only after 3000 ms when the worker is in
  the cooldown after a correction, when it waits for the adapters, and when it waits for
  state data: in these three states the worker blocks in one \<^verbatim>\<open>sleep\<close> call.
  Only the sleep between two ticks reads the flag every 100 ms: after a stop request it
  ends (\<open>sleep_loop_returns\<close>), within 100 ms of the request (\<open>sleep_loop_latency\<close>).
\<close>

theorem run_blocks_stop_request:
  "map_option elapsed
     (run 2 example_floats order_returns
        (example_worker (Some (example_state LONG 1)) (Some (example_state LONG 1))) (Some 1))
     = Some 3000
   \<and> map_option elapsed
     (run 2 example_floats order_returns
        ((example_worker (Some (example_state LONG 1)) (Some (example_state SHORT 1)))
           \<lparr>api_a := None\<rparr>) (Some 1))
     = Some 3000
   \<and> map_option elapsed
     (run 2 example_floats order_returns (example_worker None None) (Some 1))
     = Some 3000"
proof (intro conjI)
  show "map_option elapsed
     (run 2 example_floats order_returns
        (example_worker (Some (example_state LONG 1)) (Some (example_state LONG 1))) (Some 1))
     = Some 3000"
    by (simp add: run_def numeral_2_eq_2 example_worker_def example_state_def check_balance_def
        example_floats_def order_returns_def is_running_def elapsed_def sleep_loop.simps)
  show "map_option elapsed
     (run 2 example_floats order_returns
        ((example_worker (Some (example_state LONG 1)) (Some (example_state SHORT 1)))
           \<lparr>api_a := None\<rparr>) (Some 1))
     = Some 3000"
    by (simp add: run_def numeral_2_eq_2 example_worker_def example_floats_def is_running_def
        elapsed_def)
  show "map_option elapsed
     (run 2 example_floats order_returns (example_worker None None) (Some 1))
     = Some 3000"
    by (simp add: run_def numeral_2_eq_2 example_worker_def example_floats_def is_running_def
        elapsed_def)
qed

section \<open>Theorems about the adapters\<close>

subsection \<open>Sequencing\<close>

lemma seq_returns: "m s = (Inr x, s') \<Longrightarrow> seq m f s = f x s'"
  by (simp add: seq_def)

lemma http_events:
  "events (snd (seq (http W rq) (\<lambda>resp. lift (g resp)) s)) = events s @ [Sent rq]"
  by (simp add: seq_def http_def lift_def Let_def split: sum.split)

subsection \<open>Commands of an adapter that is not connected\<close>

text \<open>
  C10. On either adapter, \<^verbatim>\<open>set_leverage\<close>, \<^verbatim>\<open>create_order\<close>, \<^verbatim>\<open>cancel_order\<close> and
  \<^verbatim>\<open>cancel_all_orders\<close> called while the client is \<^verbatim>\<open>None\<close> return at once and change
  nothing: the adapter is as before and so is the record of effects, so no request is
  sent, no signal is emitted, no timer is armed and nothing is raised.
\<close>

theorem commands_without_client:
  assumes "l_client la = None" and "p_client pa = None"
  shows "lighter_set_leverage W P la smb lev s = (la, s)
       \<and> lighter_create_order W P la smb ot dir qty price s = (la, s)
       \<and> lighter_cancel_order W P la smb oid s = (la, s)
       \<and> lighter_cancel_all_orders W P la smb s = (la, s)
       \<and> pacifica_set_leverage W P pa smb lev s = (pa, s)
       \<and> pacifica_create_order W P pa smb ot dir qty price s = (pa, s)
       \<and> pacifica_cancel_order W P pa smb oid s = (pa, s)
       \<and> pacifica_cancel_all_orders W P pa smb s = (pa, s)"
  using assms
  by (simp add: lighter_set_leverage_def lighter_create_order_def lighter_cancel_order_def
        lighter_cancel_all_orders_def pacifica_set_leverage_def pacifica_create_order_def
        pacifica_cancel_order_def pacifica_cancel_all_orders_def)

theorem commands_without_client_witness:
  "events (snd (lighter_create_order example_world example_python example_lighter BTC MKT LONG 1 None
                  exec0)) = []
   \<and> events (snd (pacifica_cancel_all_orders example_world example_python example_pacifica ETH
                  exec0)) = []"
proof -
  have l: "l_client example_lighter = None" by (simp add: example_lighter_def)
  have p: "p_client example_pacifica = None" by (simp add: example_pacifica_def)
  show ?thesis
    using commands_without_client [OF l p, of example_world example_python]
    by (simp add: exec0_def)
qed

subsection \<open>Connecting to Lighter\<close>

text \<open>
  C9. \<^verbatim>\<open>LighterAPI.connect\<close> called with an account id that is present and equal to 0
  fails: it logs that Lighter requires an account id and an L1 address, returns
  \<^verbatim>\<open>False\<close>, leaves the adapter as it was and sends no request. It does exactly what it
  does when the account id is missing.
\<close>

theorem lighter_connect_account_id_zero:
  "lighter_connect W P a (creds\<lparr>accountId := Some 0\<rparr>) s
     = (False, a,
        emits (lighter_log a ''Connection failed: Lighter requires Account ID and L1 Address.'' ERROR)
          (emits (lighter_log a (''Connecting with API Key '' @ take 5 (apiKey creds) @ ''...'') INFO) s))
   \<and> lighter_connect W P a (creds\<lparr>accountId := Some 0\<rparr>) s
     = lighter_connect W P a (creds\<lparr>accountId := None\<rparr>) s
   \<and> sent_requests (events (snd (snd (lighter_connect W P a (creds\<lparr>accountId := Some 0\<rparr>) s))))
     = sent_requests (events s)"
  by (simp add: lighter_connect_def Let_def emits_def sent_requests_def lighter_log_def)

theorem lighter_connect_account_id_zero_witness:
  "fst (lighter_connect example_server example_python example_lighter
          (example_credentials\<lparr>accountId := Some 0\<rparr>) exec0) = False
   \<and> sent_requests (events (snd (snd (lighter_connect example_server example_python example_lighter
          (example_credentials\<lparr>accountId := Some 0\<rparr>) exec0)))) = []"
  using lighter_connect_account_id_zero [where W = example_server and P = example_python
      and a = example_lighter and creds = example_credentials and s = exec0]
  by (simp add: exec0_def sent_requests_def)

subsection \<open>Signing of Lighter requests\<close>

lemma auth_headers_value:
  assumes "lc_api_key c \<noteq> []" and "lc_api_secret c \<noteq> []"
  shows "get_auth_headers W P c method endpoint data s =
     (Inr [(''Content-Type'', ''application/json''),
           (''X-Api-Key'', lc_api_key c),
           (''X-Timestamp'', str_int (now_ms W (clock_reads s))),
           (''X-Signature'',
            hmac_sha256_hex W (lc_api_secret c)
              (str_int (now_ms W (clock_reads s)) @ upper method @ endpoint
               @ (case data of
                    None \<Rightarrow> []
                  | Some d \<Rightarrow> if truthy d then dumps_default P d else [])))],
      s\<lparr>clock_reads := Suc (clock_reads s)\<rparr>)"
  using assms
  by (simp add: get_auth_headers_def seq_def read_clock_def ret_def signing_message_def Let_def)

text \<open>
  C5. An authenticated request of the Lighter client (\<^verbatim>\<open>_post\<close>, \<^verbatim>\<open>_delete\<close> and the
  private GETs, with a non-empty API key and secret) reads the clock once for the
  timestamp and is sent with the headers \<^verbatim>\<open>Content-Type\<close>, \<^verbatim>\<open>X-Api-Key\<close> (the API key),
  \<^verbatim>\<open>X-Timestamp\<close> (the timestamp) and \<^verbatim>\<open>X-Signature\<close>: the hexadecimal HMAC-SHA256,
  under the secret, of timestamp, upper-case method, path and body text. The body text is
  \<^verbatim>\<open>json.dumps(data)\<close> with the default separators \<^verbatim>\<open>", "\<close> and \<^verbatim>\<open>": "\<close>, and is empty
  when there is no data or the data is empty; a private GET signs no body.
\<close>

theorem authenticated_request_signed:
  assumes "lc_api_key c \<noteq> []" and "lc_api_secret c \<noteq> []"
  shows
    "let ts = str_int (now_ms W (clock_reads s));
         text_of = (\<lambda>data. case data of
                              None \<Rightarrow> []
                            | Some d \<Rightarrow> if truthy d then dumps_default P d else []);
         headers = (\<lambda>method endpoint data.
            [(''Content-Type'', ''application/json''),
             (''X-Api-Key'', lc_api_key c),
             (''X-Timestamp'', ts),
             (''X-Signature'',
              hmac_sha256_hex W (lc_api_secret c) (ts @ upper method @ endpoint @ text_of data))])
     in get_auth_headers W P c verb endpoint data s
          = (Inr (headers verb endpoint data), s\<lparr>clock_reads := Suc (clock_reads s)\<rparr>)
      \<and> events (snd (lighter_post W P c endpoint data s))
          = events s @ [Sent (Request ''POST'' (lc_base_url c @ endpoint)
                                (Some (headers ''POST'' endpoint data)) None data)]
      \<and> events (snd (lighter_delete W P c endpoint data s))
          = events s @ [Sent (Request ''DELETE'' (lc_base_url c @ endpoint)
                                (Some (headers ''DELETE'' endpoint data)) None data)]
      \<and> events (snd (lighter_private_get W P c endpoint params s))
          = events s @ [Sent (Request ''GET'' (lc_base_url c @ endpoint)
                                (Some (headers ''GET'' endpoint None)) (Some params) None)]"
  unfolding Let_def
proof (intro conjI)
  note hv = auth_headers_value [OF assms]
  show "get_auth_headers W P c verb endpoint data s =
     (Inr [(''Content-Type'', ''application/json''),
           (''X-Api-Key'', lc_api_key c),
           (''X-Timestamp'', str_int (now_ms W (clock_reads s))),
           (''X-Signature'',
            hmac_sha256_hex W (lc_api_secret c)
              (str_int (now_ms W (clock_reads s)) @ upper verb @ endpoint
               @ (case data of
                    None \<Rightarrow> []
                  | Some d \<Rightarrow> if truthy d then dumps_default P d else [])))],
      s\<lparr>clock_reads := Suc (clock_reads s)\<rparr>)"
    by (rule hv)
  show "events (snd (lighter_post W P c endpoint data s))
          = events s @ [Sent (Request ''POST'' (lc_base_url c @ endpoint)
              (Some [(''Content-Type'', ''application/json''),
                     (''X-Api-Key'', lc_api_key c),
                     (''X-Timestamp'', str_int (now_ms W (clock_reads s))),
                     (''X-Signature'',
                      hmac_sha256_hex W (lc_api_secret c)
                        (str_int (now_ms W (clock_reads s)) @ upper ''POST'' @ endpoint
                         @ (case data of
                              None \<Rightarrow> []
                            | Some d \<Rightarrow> if truthy d then dumps_default P d else [])))])
              None data)]"
    unfolding lighter_post_def seq_returns [OF hv] http_events by simp
  show "events (snd (lighter_delete W P c endpoint data s))
          = events s @ [Sent (Request ''DELETE'' (lc_base_url c @ endpoint)
              (Some [(''Content-Type'', ''application/json''),
                     (''X-Api-Key'', lc_api_key c),
                     (''X-Timestamp'', str_int (now_ms W (clock_reads s))),
                     (''X-Signature'',
                      hmac_sha256_hex W (lc_api_secret c)
                        (str_int (now_ms W (clock_reads s)) @ upper ''DELETE'' @ endpoint
                         @ (case data of
                              None \<Rightarrow> []
                            | Some d \<Rightarrow> if truthy d then dumps_default P d else [])))])
              None data)]"
    unfolding lighter_delete_def seq_returns [OF hv] http_events by simp
  show "events (snd (lighter_private_get W P c endpoint params s))
          = events s @ [Sent (Request ''GET'' (lc_base_url c @ endpoint)
              (Some [(''Content-Type'', ''application/json''),
                     (''X-Api-Key'', lc_api_key c),
                     (''X-Timestamp'', str_int (now_ms W (clock_reads s))),
                     (''X-Signature'',
                      hmac_sha256_hex W (lc_api_secret c)
                        (str_int (now_ms W (clock_reads s)) @ upper ''GET'' @ endpoint
                         @ (case None of
                              None \<Rightarrow> []
                            | Some d \<Rightarrow> if truthy d then dumps_default P d else [])))])
              (Some params) None)]"
    unfolding lighter_private_get_def seq_returns [OF hv] http_events by simp
qed

theorem authenticated_request_signed_witness:
  "get_auth_headers example_world example_python example_lighter_client ''delete''
      ''/api/v2/account/orders/all'' (Some example_body) exec0
     = (Inr [(''Content-Type'', ''application/json''),
             (''X-Api-Key'', ''key-0001''),
             (''X-Timestamp'', str_int 1700000000000),
             (''X-Signature'', ''00'')],
        \<lparr>clock_reads = 1, requests_sent = 0, events = []\<rparr>)"
proof -
  have k: "lc_api_key example_lighter_client \<noteq> []" by (simp add: example_lighter_client_def)
  have sk: "lc_api_secret example_lighter_client \<noteq> []" by (simp add: example_lighter_client_def)
  show ?thesis
    using authenticated_request_signed [OF k sk, where W = example_world and s = exec0
        and P = example_python and verb = "''delete''"
        and endpoint = "''/api/v2/account/orders/all''" and data = "Some example_body"]
    by (simp add: Let_def example_world_def exec0_def example_lighter_client_def)
qed

text \<open>
  The message that is signed is not the one with the compact JSON body: for a body of two
  items the two differ.
\<close>

theorem signing_message_not_compact:
  "signing_message example_python ''1700000000000'' ''delete'' ''/api/v2/account/orders/all''
      (Some example_body)
   \<noteq> spec_signing_message example_python ''1700000000000'' ''delete'' ''/api/v2/account/orders/all''
      (Some example_body)"
  by (simp add: signing_message_def spec_signing_message_def example_body_def dumps_default_def
        dumps_compact_def json_quote_def json_escape_char_def)

subsection \<open>Signing of Pacifica requests\<close>

lemma signing_raises:
  "create_signature W P private_key request_str method params s
     = (Inl (ValueError ''API key is not set''), s)"
  by (simp add: create_signature_def check_api_keys_def seq_def lift_def)

text \<open>
  C6. \<^verbatim>\<open>create_signature\<close> signs nothing. Whatever the private key, the path, the method
  and the parameters, it raises \<^verbatim>\<open>ValueError("API key is not set")\<close> in its first
  statement, before the clock is read and before the key is decoded: the call
  \<^verbatim>\<open>check_api_keys(api_key="", private_key=private_key)\<close> passes an empty API key to a
  check that rejects an empty API key.
\<close>

theorem create_signature_always_fails:
  "create_signature W P private_key request_str method params s
     = (Inl (ValueError ''API key is not set''), s)"
  by (rule signing_raises)

text \<open>
  So \<^verbatim>\<open>Client._request\<close> of Pacifica never reaches the network: it returns the dict
  \<^verbatim>\<open>{"error": "API key is not set"}\<close>. What follows the signing would not raise either:
  every failure of the request, a connection error included, becomes an error dict.
\<close>

lemma pacifica_request_error:
  "pacifica_request W P c method request_str params s
     = (Inr (error_dict ''API key is not set''), s)"
  by (simp add: pacifica_request_def signing_raises)

lemma answer_returns:
  "\<exists>j s'. (case http W rq s of
              (Inl e, s') \<Rightarrow> (Inr (f e), s')
            | (Inr resp, s') \<Rightarrow>
                (case status_error resp of
                   Some http_err \<Rightarrow> (Inr (g http_err), s')
                 | None \<Rightarrow>
                     (case body resp of
                        Inl err \<Rightarrow> (Inr (k err), s')
                      | Inr j \<Rightarrow> (Inr j, s')))) = (Inr j, s')"
proof (cases "http W rq s")
  case (Pair r s')
  show ?thesis
  proof (cases r)
    case (Inl e)
    with Pair show ?thesis by simp
  next
    case (Inr resp)
    show ?thesis
    proof (cases "status_error resp")
      case None
      with Pair Inr show ?thesis by (cases "body resp") simp_all
    next
      case (Some h)
      with Pair Inr show ?thesis by simp
    qed
  qed
qed

lemma never_raises_if:
  assumes "\<exists>j s'. f s = (Inr j, s')" and "\<exists>j s'. g s = (Inr j, s')"
  shows "\<exists>j s'. (if b then f else g) s = (Inr j, s')"
  using assms by simp

lemma pacifica_send_never_raises:
  "\<exists>j s'. pacifica_send W c method request_str params signature timestamp s = (Inr j, s')"
  unfolding pacifica_send_def Let_def
  by (intro never_raises_if answer_returns) (simp add: ret_def)

lemma pacifica_send_network_down:
  "fst (pacifica_send example_world example_pacifica_client ''GET'' ''/markets/BTC-PERP/summary'' []
          ''1111'' ''1700000000000'' exec0)
     = Inr (error_dict ''Request Error: Connection refused'')"
  by (simp add: pacifica_send_def Let_def http_def example_world_def)

subsection \<open>Connecting to Pacifica\<close>

text \<open>
  C4. \<^verbatim>\<open>PacificaAPI.connect\<close> never succeeds and never confirms the credentials with a
  call: for every credential, the wallet address present or not, it returns \<^verbatim>\<open>False\<close>,
  leaves the adapter without a client and sends no request. With a non-empty API key and
  secret the server time is asked for, the signing of that request raises, and the error
  dict that \<^verbatim>\<open>_request\<close> returns is logged as a failed connection.
\<close>

theorem pacifica_connect_never_succeeds:
  "fst (pacifica_connect W P a creds s) = False
   \<and> p_client (fst (snd (pacifica_connect W P a creds s))) = None
   \<and> sent_requests (events (snd (snd (pacifica_connect W P a creds s)))) = sent_requests (events s)"
proof (cases "new_PacificaClient (apiKey creds) (apiSecret creds) (accountAddress creds)")
  case (Inl e)
  then show ?thesis
    by (simp add: pacifica_connect_def pacifica_connect_try_def Let_def seq_def lift_def emits_def
          sent_requests_def pacifica_log_def)
next
  case (Inr c)
  then show ?thesis
    by (simp add: pacifica_connect_def pacifica_connect_try_def Let_def seq_def lift_def emits_def
          emit_def ret_def sent_requests_def pacifica_log_def get_server_time_def
          pacifica_request_error error_dict_def)
qed

text \<open>
  The Lighter adapter does validate: a missing or zero account id, or a missing or empty
  L1 address, fails with no request sent, and with these two fields and a non-empty key
  and secret exactly one request is sent, whatever its outcome.
\<close>

lemma lighter_connect_missing_field:
  assumes "accountId creds = None \<or> accountId creds = Some 0
         \<or> l1Address creds = None \<or> l1Address creds = Some []"
  shows "fst (lighter_connect W P a creds s) = False
       \<and> sent_requests (events (snd (snd (lighter_connect W P a creds s)))) = sent_requests (events s)"
  using assms
  by (auto simp add: lighter_connect_def Let_def emits_def sent_requests_def lighter_log_def
        split: option.splits)

lemma lighter_private_get_one_request:
  assumes "lc_api_key c \<noteq> []" and "lc_api_secret c \<noteq> []"
  shows "requests_sent (snd (lighter_private_get W P c endpoint params s)) = Suc (requests_sent s)"
  unfolding lighter_private_get_def seq_returns [OF auth_headers_value [OF assms]]
  by (simp add: seq_def http_def lift_def Let_def split: sum.split)

lemma lighter_connect_try_one_request:
  assumes "lc_api_key c \<noteq> []" and "lc_api_secret c \<noteq> []"
  shows "requests_sent (snd (lighter_connect_try W P a c s)) = Suc (requests_sent s)"
proof (cases "lighter_private_get W P c ''/api/v2/account/collateral''
                (JObj [(''token'', JStr ''USDT''), (''account_id'', JStr (lc_account_id c))]) s")
  case (Pair r s')
  with lighter_private_get_one_request [OF assms, of W P "''/api/v2/account/collateral''"
      "JObj [(''token'', JStr ''USDT''), (''account_id'', JStr (lc_account_id c))]" s]
  have n: "requests_sent s' = Suc (requests_sent s)" by simp
  show ?thesis
  proof (cases r)
    case (Inl e)
    with Pair n show ?thesis
      by (simp add: lighter_connect_try_def get_account_collateral_def seq_def)
  next
    case (Inr response)
    with Pair n show ?thesis
      by (simp add: lighter_connect_try_def get_account_collateral_def seq_def lift_def ret_def
            emit_def emits_def split: sum.split)
  qed
qed

lemma lighter_connect_one_request:
  assumes "accountId creds = Some n" and "n \<noteq> 0" and "l1Address creds = Some l1" and "l1 \<noteq> []"
    and "apiKey creds \<noteq> []" and "apiSecret creds \<noteq> []"
  shows "requests_sent (snd (snd (lighter_connect W P a creds s))) = Suc (requests_sent s)"
proof -
  let ?c = "\<lparr>lc_api_key = apiKey creds, lc_api_secret = apiSecret creds,
             lc_account_id = str_int n, lc_l1_address = l1, lc_base_url = lighter_base_url\<rparr>"
  let ?s1 = "emits (lighter_log a (''Connecting with API Key '' @ take 5 (apiKey creds) @ ''...'') INFO) s"
  have k: "lc_api_key ?c \<noteq> []" and sk: "lc_api_secret ?c \<noteq> []"
    using assms(5,6) by simp_all
  have one: "requests_sent (snd (lighter_connect_try W P a ?c ?s1)) = Suc (requests_sent s)"
    using lighter_connect_try_one_request [OF k sk, of W P a ?s1] by (simp add: emits_def)
  obtain r s2 where r: "lighter_connect_try W P a ?c ?s1 = (r, s2)"
    by (cases "lighter_connect_try W P a ?c ?s1")
  with one have "requests_sent s2 = Suc (requests_sent s)" by simp
  with r assms(1-4) show ?thesis
    by (cases r) (simp_all add: lighter_connect_def Let_def emits_def split: bool.split)
qed

lemma lighter_connect_example:
  "fst (lighter_connect example_server example_python example_lighter example_credentials exec0)
     = True
   \<and> requests_sent (snd (snd (lighter_connect example_server example_python example_lighter
        example_credentials exec0))) = 1"
  by (simp add: lighter_connect_def lighter_connect_try_def get_account_collateral_def
        lighter_private_get_def get_auth_headers_def seq_def read_clock_def ret_def http_def lift_def
        emit_def emits_def Let_def handle_response_def example_server_def example_credentials_def
        example_lighter_def exec0_def)

section \<open>Theorems about the poll cycle\<close>

subsection \<open>Translation of the position payload\<close>

text \<open>
  The Lighter adapter sets a direction only when the size is positive, so that whatever
  the payload, a position it builds has direction NONE exactly when its quantity is 0.
\<close>

lemma lighter_position_invariant:
  assumes "lighter_position P position_data = Inr (pos, v)"
  shows "(direction pos = NONE) = (quantity pos = 0)"
proof (cases "truthy position_data")
  case False
  with assms show ?thesis
    by (auto simp add: lighter_position_def bindS_def)
next
  case True
  show ?thesis
  proof (cases "bindS (py_getitem position_data ''size'') (py_float P)")
    case (Inl e)
    with True assms show ?thesis
      by (simp add: lighter_position_def bindS_def)
  next
    case (Inr sz)
    with True assms show ?thesis
      by (cases "sz > 0")
         (auto simp add: lighter_position_def bindS_def split: sum.splits if_splits)
  qed
qed

text \<open>
  The translation in the Pacifica adapter tests only that the payload has a first
  position: applied to a position of size 0 it would give direction LONG with quantity 0.
  No poll applies it, because no poll of the Pacifica adapter gets as far
  (\<open>pacifica_poll_try_fails\<close> below).
\<close>

lemma pacifica_position_zero_size:
  "pacifica_position example_python example_position_payload
     = Inr (\<lparr>direction = LONG, quantity = 0, entryPrice = 0\<rparr>, 0)"
  by (simp add: pacifica_position_def example_position_payload_def example_python_def bindS_def)

subsection \<open>Following a computation through its requests\<close>

lemma sent_requests_append: "sent_requests (xs @ ys) = sent_requests xs @ sent_requests ys"
  by (simp add: sent_requests_def)

lemma outcomes_append:
  "outcomes W k (xs @ ys) = outcomes W k xs @ outcomes W (k + length xs) ys"
  by (simp add: outcomes_def enumerate_append_eq)

lemma length_outcomes: "length (outcomes W k rqs) = length rqs"
  by (simp add: outcomes_def)

lemma outcomes_Nil: "(outcomes W k rqs = []) = (rqs = [])"
  by (cases rqs) (simp_all add: outcomes_def)

lemma list_all_butlast: "list_all P xs \<Longrightarrow> list_all P (butlast xs)"
  by (auto simp add: list_all_iff dest: in_set_butlastD)

lemma answered_last:
  "list_all answered os \<Longrightarrow> os \<noteq> [] \<Longrightarrow> \<not> connection_error (last os)"
proof -
  assume a: "list_all answered os" and n: "os \<noteq> []"
  then have "answered (last os)" by (simp add: list_all_iff)
  then show ?thesis by (cases "last os") simp_all
qed

lemma tracked_ret: "tracked W Q (ret x)"
  by (simp add: tracked_def ret_def sent_requests_def outcomes_def)

lemma tracked_lift: "harmless r \<Longrightarrow> tracked W Q (lift r)"
  by (cases r) (simp_all add: tracked_def lift_def harmless_def sent_requests_def outcomes_def)

lemma tracked_raise: "\<not> is_RequestException e \<Longrightarrow> tracked W Q (raise e)"
  by (simp add: tracked_def raise_def sent_requests_def outcomes_def)

lemma tracked_read_clock: "tracked W Q (read_clock W)"
  by (simp add: tracked_def read_clock_def sent_requests_def outcomes_def)

lemma tracked_emit:
  assumes "Q ev" and "sent_requests [ev] = []"
  shows "tracked W Q (emit ev)"
  unfolding tracked_def
proof
  fix s
  show "\<exists>evs. events (snd (emit ev s)) = events s @ evs
      \<and> requests_sent (snd (emit ev s)) = requests_sent s + length (sent_requests evs)
      \<and> list_all Q evs
      \<and> list_all answered (butlast (outcomes W (requests_sent s) (sent_requests evs)))
      \<and> (case fst (emit ev s) of
            Inr x \<Rightarrow> list_all answered (outcomes W (requests_sent s) (sent_requests evs))
          | Inl e \<Rightarrow>
              is_RequestException e
                = (sent_requests evs \<noteq> []
                   \<and> connection_error (last (outcomes W (requests_sent s) (sent_requests evs)))))"
    using assms by (intro exI [of _ "[ev]"]) (simp add: emit_def emits_def outcomes_def)
qed

lemma tracked_seq:
  assumes m: "tracked W Q m" and f: "\<And>x s s'. m s = (Inr x, s') \<Longrightarrow> tracked W Q (f x)"
  shows "tracked W Q (seq m f)"
  unfolding tracked_def
proof
  fix s
  obtain r s1 where ms: "m s = (r, s1)" by (cases "m s")
  from m obtain evs1 where
    e1: "events s1 = events s @ evs1"
    and n1: "requests_sent s1 = requests_sent s + length (sent_requests evs1)"
    and q1: "list_all Q evs1"
    and b1: "list_all answered (butlast (outcomes W (requests_sent s) (sent_requests evs1)))"
    and c1: "(case r of
            Inr x \<Rightarrow> list_all answered (outcomes W (requests_sent s) (sent_requests evs1))
          | Inl e \<Rightarrow>
              is_RequestException e
                = (sent_requests evs1 \<noteq> []
                   \<and> connection_error (last (outcomes W (requests_sent s) (sent_requests evs1)))))"
    unfolding tracked_def using ms by (metis fst_conv snd_conv)
  show "\<exists>evs. events (snd (seq m f s)) = events s @ evs
      \<and> requests_sent (snd (seq m f s)) = requests_sent s + length (sent_requests evs)
      \<and> list_all Q evs
      \<and> list_all answered (butlast (outcomes W (requests_sent s) (sent_requests evs)))
      \<and> (case fst (seq m f s) of
            Inr x \<Rightarrow> list_all answered (outcomes W (requests_sent s) (sent_requests evs))
          | Inl e \<Rightarrow>
              is_RequestException e
                = (sent_requests evs \<noteq> []
                   \<and> connection_error (last (outcomes W (requests_sent s) (sent_requests evs)))))"
  proof (cases r)
    case (Inl e)
    with ms have "seq m f s = (Inl e, s1)" by (simp add: seq_def)
    with e1 n1 q1 b1 c1 Inl show ?thesis by (intro exI [of _ evs1]) simp
  next
    case (Inr x)
    with ms have sq: "seq m f s = f x s1" by (simp add: seq_def)
    from c1 Inr have a1: "list_all answered (outcomes W (requests_sent s) (sent_requests evs1))"
      by simp
    from f ms Inr have "tracked W Q (f x)" by blast
    then obtain evs2 where
      e2: "events (snd (f x s1)) = events s1 @ evs2"
      and n2: "requests_sent (snd (f x s1)) = requests_sent s1 + length (sent_requests evs2)"
      and q2: "list_all Q evs2"
      and b2: "list_all answered (butlast (outcomes W (requests_sent s1) (sent_requests evs2)))"
      and c2: "(case fst (f x s1) of
            Inr y \<Rightarrow> list_all answered (outcomes W (requests_sent s1) (sent_requests evs2))
          | Inl e \<Rightarrow>
              is_RequestException e
                = (sent_requests evs2 \<noteq> []
                   \<and> connection_error (last (outcomes W (requests_sent s1) (sent_requests evs2)))))"
      unfolding tracked_def by metis
    let ?os1 = "outcomes W (requests_sent s) (sent_requests evs1)"
    let ?os2 = "outcomes W (requests_sent s1) (sent_requests evs2)"
    have os: "outcomes W (requests_sent s) (sent_requests (evs1 @ evs2)) = ?os1 @ ?os2"
      by (simp add: sent_requests_append outcomes_append n1)
    have nil2: "(?os2 = []) = (sent_requests evs2 = [])" by (rule outcomes_Nil)
    have nil1: "(?os1 = []) = (sent_requests evs1 = [])" by (rule outcomes_Nil)
    have bl: "list_all answered (butlast (?os1 @ ?os2))"
      using a1 b2 by (simp add: butlast_append list_all_butlast)
    have cs: "(case fst (f x s1) of
            Inr y \<Rightarrow> list_all answered (?os1 @ ?os2)
          | Inl e \<Rightarrow>
              is_RequestException e
                = (sent_requests (evs1 @ evs2) \<noteq> [] \<and> connection_error (last (?os1 @ ?os2))))"
    proof (cases "fst (f x s1)")
      case (Inr y)
      with c2 a1 show ?thesis by simp
    next
      case (Inl e)
      show ?thesis
      proof (cases "sent_requests evs2 = []")
        case True
        with c2 Inl nil2 a1 nil1 answered_last [of ?os1] show ?thesis
          by (auto simp add: sent_requests_append)
      next
        case False
        with c2 Inl nil2 show ?thesis by (simp add: sent_requests_append)
      qed
    qed
    have g1: "events (snd (f x s1)) = events s @ (evs1 @ evs2)"
      using e1 e2 by simp
    have g2: "requests_sent (snd (f x s1))
                = requests_sent s + length (sent_requests (evs1 @ evs2))"
      using n1 n2 by (simp add: sent_requests_append)
    have g3: "list_all Q (evs1 @ evs2)"
      using q1 q2 by simp
    have g4: "list_all answered
                (butlast (outcomes W (requests_sent s) (sent_requests (evs1 @ evs2))))"
      unfolding os by (rule bl)
    have g5: "(case fst (f x s1) of
            Inr y \<Rightarrow> list_all answered (outcomes W (requests_sent s) (sent_requests (evs1 @ evs2)))
          | Inl e \<Rightarrow>
              is_RequestException e
                = (sent_requests (evs1 @ evs2) \<noteq> []
                   \<and> connection_error
                        (last (outcomes W (requests_sent s) (sent_requests (evs1 @ evs2))))))"
      unfolding os by (rule cs)
    show ?thesis
      unfolding sq using g1 g2 g3 g4 g5 by blast
  qed
qed

lemma harmless_Inr: "harmless (Inr x)"
  by (simp add: harmless_def)

lemma harmless_bindS:
  assumes "harmless r" and "\<And>x. harmless (f x)"
  shows "harmless (bindS r f)"
  using assms by (cases r) (simp_all add: bindS_def harmless_def)

lemma harmless_if:
  assumes "b \<Longrightarrow> harmless r1" and "\<not> b \<Longrightarrow> harmless r2"
  shows "harmless (if b then r1 else r2)"
  using assms by simp

lemma harmless_py_getitem: "harmless (py_getitem j k)"
  by (cases j) (simp_all add: harmless_def split: option.split)

lemma harmless_py_getitem0: "harmless (py_getitem0 j)"
  by (cases j rule: py_getitem0.cases) (simp_all add: harmless_def)

lemma harmless_py_contains: "harmless (py_contains k j)"
  by (cases j) (simp_all add: harmless_def)

lemma harmless_py_get: "harmless (py_get j k d)"
  by (cases j) (simp_all add: harmless_def)

lemma harmless_py_float: "harmless (py_float P j)"
  by (cases j) (simp_all add: harmless_def split: option.split)

lemma harmless_py_int: "harmless (py_int P j)"
  by (cases j) (simp_all add: harmless_def split: option.split)

lemma harmless_py_iter: "harmless (py_iter j)"
  by (cases j) (simp_all add: harmless_def)

lemma harmless_mapS:
  assumes "\<And>x. harmless (f x)"
  shows "harmless (mapS f xs)"
  by (induction xs) (simp_all add: harmless_Inr harmless_bindS assms)

lemma harmless_filter_open: "harmless (filter_open xs)"
  by (induction xs) (simp_all add: harmless_Inr harmless_bindS harmless_py_get)

lemmas harmless_intros =
  harmless_Inr harmless_bindS harmless_if harmless_py_getitem harmless_py_getitem0
  harmless_py_contains harmless_py_get harmless_py_float harmless_py_int harmless_py_iter
  harmless_mapS harmless_filter_open

lemma harmless_lighter_position: "harmless (lighter_position P position_data)"
  unfolding lighter_position_def by (intro harmless_intros)

lemma harmless_lighter_order: "harmless (lighter_order P od)"
  unfolding lighter_order_def by (intro harmless_intros)

lemma harmless_handle_response: "harmless (handle_response P resp)"
proof (cases "status_error resp")
  case None
  then show ?thesis
    by (cases "body resp") (simp_all add: handle_response_def harmless_def)
next
  case (Some http_err)
  show ?thesis
  proof (cases "body resp")
    case (Inl err)
    with Some show ?thesis by (simp add: handle_response_def harmless_def)
  next
    case (Inr error_data)
    have "harmless (bindS (py_get error_data ''error'' (JStr http_err))
             (\<lambda>error_msg. Inl (PyException (''HTTP error occurred: '' @ py_str P error_msg))
                :: pyexn + json))"
      by (intro harmless_bindS harmless_py_get) (simp add: harmless_def)
    with Some Inr show ?thesis by (simp add: handle_response_def)
  qed
qed

lemma handle_response_answered:
  "handle_response P resp = Inr j \<Longrightarrow> answered (Inr resp)"
  by (auto simp add: handle_response_def bindS_def split: option.splits sum.splits)

lemma tracked_if:
  assumes "b \<Longrightarrow> tracked W Q m1" and "\<not> b \<Longrightarrow> tracked W Q m2"
  shows "tracked W Q (if b then m1 else m2)"
  using assms by simp

lemma tracked_fetch:
  assumes "Q (Sent rq)"
  shows "tracked W Q (seq (http W rq) (\<lambda>resp. lift (handle_response P resp)))"
  unfolding tracked_def
proof
  fix s :: Exec
  let ?m = "seq (http W rq) (\<lambda>resp. lift (handle_response P resp))"
  have sr: "sent_requests [Sent rq] = [rq]" by (simp add: sent_requests_def)
  have os: "outcomes W (requests_sent s) [rq] = [send W (requests_sent s) rq]"
    by (simp add: outcomes_def)
  have ev: "events (snd (?m s)) = events s @ [Sent rq]"
    by (simp add: seq_def http_def lift_def Let_def split: sum.split)
  have n: "requests_sent (snd (?m s)) = requests_sent s + length (sent_requests [Sent rq])"
    by (simp add: seq_def http_def lift_def Let_def sr split: sum.split)
  have c: "(case fst (?m s) of
            Inr x \<Rightarrow> list_all answered (outcomes W (requests_sent s) (sent_requests [Sent rq]))
          | Inl e \<Rightarrow>
              is_RequestException e
                = (sent_requests [Sent rq] \<noteq> []
                   \<and> connection_error (last (outcomes W (requests_sent s) (sent_requests [Sent rq])))))"
  proof (cases "send W (requests_sent s) rq")
    case (Inl m)
    then show ?thesis by (simp add: seq_def http_def lift_def Let_def sr os)
  next
    case (Inr resp)
    then have f: "fst (?m s) = handle_response P resp"
      by (simp add: seq_def http_def lift_def Let_def)
    show ?thesis
    proof (cases "handle_response P resp")
      case (Inl e)
      with harmless_handle_response [of P resp] have "\<not> is_RequestException e"
        by (simp add: harmless_def)
      with Inl Inr f show ?thesis by (simp add: sr os)
    next
      case r: (Inr j)
      from handle_response_answered [OF r] r Inr f show ?thesis by (simp add: sr os)
    qed
  qed
  have b: "list_all answered (butlast (outcomes W (requests_sent s) (sent_requests [Sent rq])))"
    by (simp add: sr os)
  have q: "list_all Q [Sent rq]" using assms by simp
  show "\<exists>evs. events (snd (?m s)) = events s @ evs
      \<and> requests_sent (snd (?m s)) = requests_sent s + length (sent_requests evs)
      \<and> list_all Q evs
      \<and> list_all answered (butlast (outcomes W (requests_sent s) (sent_requests evs)))
      \<and> (case fst (?m s) of
            Inr x \<Rightarrow> list_all answered (outcomes W (requests_sent s) (sent_requests evs))
          | Inl e \<Rightarrow>
              is_RequestException e
                = (sent_requests evs \<noteq> []
                   \<and> connection_error (last (outcomes W (requests_sent s) (sent_requests evs)))))"
    using ev n q b c by blast
qed

lemma tracked_get_auth_headers:
  "tracked W Q (get_auth_headers W P c method endpoint data)"
  unfolding get_auth_headers_def Let_def
  by (intro tracked_if tracked_raise tracked_seq tracked_read_clock tracked_ret) simp

lemma tracked_lighter_get: "tracked W state_kept (lighter_get W P c endpoint params)"
  unfolding lighter_get_def by (rule tracked_fetch) simp

lemma tracked_lighter_private_get:
  "tracked W state_kept (lighter_private_get W P c endpoint params)"
  unfolding lighter_private_get_def
  by (intro tracked_seq tracked_get_auth_headers tracked_fetch) simp

lemma tracked_get_market_price: "tracked W state_kept (get_market_price W P c market_name)"
  unfolding get_market_price_def
  by (intro tracked_seq tracked_if tracked_lift tracked_ret tracked_raise tracked_lighter_get
        harmless_intros) simp_all

lemma tracked_lighter_get_orders:
  "tracked W state_kept (lighter_get_orders W P c market_name status)"
  unfolding lighter_get_orders_def
  by (intro tracked_seq tracked_if tracked_lift tracked_ret tracked_lighter_private_get
        harmless_intros)

lemma lighter_position_kept:
  assumes "lighter_position P position_data = Inr pp"
  shows "position_invariant (fst pp)"
  using lighter_position_invariant [of P position_data "fst pp" "snd pp"] assms
  by (simp add: position_invariant_def)

lemma tracked_lighter_poll_try: "tracked W state_kept (lighter_poll_try W P a c)"
  unfolding lighter_poll_try_def get_account_collateral_def lighter_get_positions_def
  by (intro tracked_seq tracked_lift tracked_emit tracked_get_market_price
        tracked_lighter_private_get tracked_lighter_get_orders harmless_intros
        harmless_lighter_position harmless_lighter_order)
     (auto simp add: sent_requests_def lift_def dest: lighter_position_kept)

subsection \<open>One poll cycle\<close>


lemma added_events_append: "events s' = events s @ evs \<Longrightarrow> added_events s s' = evs"
  by (simp add: added_events_def)


lemma keep_timer: "l_timer_active a \<Longrightarrow> a\<lparr>l_timer_active := True\<rparr> = a"
  by (cases a) simp

text \<open>What a poll cycle of the Lighter adapter adds, and what it does to the adapter.\<close>

lemma lighter_poll_cycle:
  assumes "l_client a = Some c" and "l_timer_active a"
  shows "\<exists>evs. events (snd (lighter_poll_data W P a s)) = events s @ evs
      \<and> list_all state_kept evs
      \<and> list_all answered (butlast (outcomes W (requests_sent s) (sent_requests evs)))
      \<and> fst (lighter_poll_data W P a s)
          = a\<lparr>l_timer_active :=
                \<not> (outcomes W (requests_sent s) (sent_requests evs) \<noteq> []
                   \<and> connection_error (last (outcomes W (requests_sent s) (sent_requests evs))))\<rparr>
      \<and> (list_all answered (outcomes W (requests_sent s) (sent_requests evs))
         \<or> list_ex is_error_log evs)"
proof -
  obtain r s1 where ms: "lighter_poll_try W P a c s = (r, s1)"
    by (cases "lighter_poll_try W P a c s")
  from tracked_lighter_poll_try [of W P a c] obtain evs1 where
    e1: "events s1 = events s @ evs1"
    and q1: "list_all state_kept evs1"
    and b1: "list_all answered (butlast (outcomes W (requests_sent s) (sent_requests evs1)))"
    and c1: "(case r of
            Inr x \<Rightarrow> list_all answered (outcomes W (requests_sent s) (sent_requests evs1))
          | Inl e \<Rightarrow>
              is_RequestException e
                = (sent_requests evs1 \<noteq> []
                   \<and> connection_error (last (outcomes W (requests_sent s) (sent_requests evs1)))))"
    unfolding tracked_def using ms by (metis fst_conv snd_conv)
  let ?os = "outcomes W (requests_sent s) (sent_requests evs1)"
  have nil: "(?os = []) = (sent_requests evs1 = [])" by (rule outcomes_Nil)
  show ?thesis
  proof (cases r)
    case (Inr u)
    with c1 have a1: "list_all answered ?os" by simp
    then have nc: "\<not> (?os \<noteq> [] \<and> connection_error (last ?os))"
      using answered_last [of ?os] by blast
    from Inr ms assms have res: "lighter_poll_data W P a s = (a, s1)"
      by (simp add: lighter_poll_data_def)
    have g1: "events (snd (lighter_poll_data W P a s)) = events s @ evs1"
      unfolding res using e1 by simp
    have g4: "fst (lighter_poll_data W P a s)
          = a\<lparr>l_timer_active := \<not> (?os \<noteq> [] \<and> connection_error (last ?os))\<rparr>"
      unfolding res using nc assms(2) by (simp add: keep_timer)
    from g1 q1 b1 g4 a1 show ?thesis by blast
  next
    case (Inl e)
    show ?thesis
    proof (cases "is_RequestException e")
      case True
      let ?l1 = "lighter_log a (''Network error during poll: '' @ str_exn e) ERROR"
      let ?l2 = "lighter_log a ''Real-data polling stopped.'' INFO"
      let ?E = "evs1 @ [?l1, ?l2]"
      from True Inl ms assms have res:
        "lighter_poll_data W P a s = (a\<lparr>l_timer_active := False\<rparr>, emits ?l2 (emits ?l1 s1))"
        by (simp add: lighter_poll_data_def lighter_stop_streaming_def)
      have sr: "sent_requests ?E = sent_requests evs1"
        by (simp add: sent_requests_def lighter_log_def)
      from True Inl c1 nil have ce: "?os \<noteq> [] \<and> connection_error (last ?os)" by simp
      have g1: "events (snd (lighter_poll_data W P a s)) = events s @ ?E"
        unfolding res using e1 by (simp add: emits_def)
      have g2: "list_all state_kept ?E"
        using q1 by (simp add: lighter_log_def)
      have g3: "list_all answered (butlast (outcomes W (requests_sent s) (sent_requests ?E)))"
        unfolding sr by (rule b1)
      have g4: "fst (lighter_poll_data W P a s)
          = a\<lparr>l_timer_active :=
                \<not> (outcomes W (requests_sent s) (sent_requests ?E) \<noteq> []
                   \<and> connection_error (last (outcomes W (requests_sent s) (sent_requests ?E))))\<rparr>"
        unfolding sr res using ce by simp
      have g5: "list_ex is_error_log ?E"
        by (simp add: lighter_log_def)
      from g1 g2 g3 g4 g5 show ?thesis by blast
    next
      case False
      let ?l1 = "lighter_log a (''Data poll failed: '' @ str_exn e) ERROR"
      let ?E = "evs1 @ [?l1]"
      from False Inl ms assms have res:
        "lighter_poll_data W P a s = (a, emits ?l1 s1)"
        by (simp add: lighter_poll_data_def)
      have sr: "sent_requests ?E = sent_requests evs1"
        by (simp add: sent_requests_def lighter_log_def)
      from False Inl c1 nil have nc: "\<not> (?os \<noteq> [] \<and> connection_error (last ?os))" by simp
      have g1: "events (snd (lighter_poll_data W P a s)) = events s @ ?E"
        unfolding res using e1 by (simp add: emits_def)
      have g2: "list_all state_kept ?E"
        using q1 by (simp add: lighter_log_def)
      have g3: "list_all answered (butlast (outcomes W (requests_sent s) (sent_requests ?E)))"
        unfolding sr by (rule b1)
      have g4: "fst (lighter_poll_data W P a s)
          = a\<lparr>l_timer_active :=
                \<not> (outcomes W (requests_sent s) (sent_requests ?E) \<noteq> []
                   \<and> connection_error (last (outcomes W (requests_sent s) (sent_requests ?E))))\<rparr>"
        unfolding sr res using nc assms(2) by (simp add: keep_timer)
      have g5: "list_ex is_error_log ?E"
        by (simp add: lighter_log_def)
      from g1 g2 g3 g4 g5 show ?thesis by blast
    qed
  qed
qed




text \<open>
  Two consequences for the Lighter adapter: a cycle whose last request got an HTTP error
  status leaves the adapter as it was and logs an error, and a cycle whose last request
  met a connection error stops the timer.
\<close>

lemma http_error_not_answered: "http_error o1 \<Longrightarrow> \<not> answered o1 \<and> \<not> connection_error o1"
  by (cases o1) auto

lemma lighter_poll_http_error_continues:
  assumes "l_client a = Some c" and "l_timer_active a"
    and "cycle_outcomes W s (snd (lighter_poll_data W P a s)) \<noteq> []"
    and "http_error (last (cycle_outcomes W s (snd (lighter_poll_data W P a s))))"
  shows "fst (lighter_poll_data W P a s) = a
       \<and> list_ex is_error_log (added_events s (snd (lighter_poll_data W P a s)))"
proof -
  from lighter_poll_cycle [OF assms(1,2), of W P s] obtain evs where
    ev: "events (snd (lighter_poll_data W P a s)) = events s @ evs"
    and t: "fst (lighter_poll_data W P a s)
          = a\<lparr>l_timer_active :=
                \<not> (outcomes W (requests_sent s) (sent_requests evs) \<noteq> []
                   \<and> connection_error (last (outcomes W (requests_sent s) (sent_requests evs))))\<rparr>"
    and l: "list_all answered (outcomes W (requests_sent s) (sent_requests evs))
         \<or> list_ex is_error_log evs"
    by blast
  let ?os = "outcomes W (requests_sent s) (sent_requests evs)"
  have os: "cycle_outcomes W s (snd (lighter_poll_data W P a s)) = ?os"
    by (simp add: cycle_outcomes_def added_events_append [OF ev])
  from assms(3,4) have ne: "?os \<noteq> []" and he: "http_error (last ?os)"
    unfolding os by simp_all
  from he have na: "\<not> answered (last ?os)" and nc: "\<not> connection_error (last ?os)"
    using http_error_not_answered by blast+
  from ne na have "\<not> list_all answered ?os"
    by (auto simp add: list_all_iff)
  with l have "list_ex is_error_log evs" by blast
  moreover from t nc assms(2) have "fst (lighter_poll_data W P a s) = a"
    by (simp add: keep_timer)
  ultimately show ?thesis by (simp add: added_events_append [OF ev])
qed

lemma lighter_poll_connection_error_stops:
  assumes "l_client a = Some c" and "l_timer_active a"
    and "cycle_outcomes W s (snd (lighter_poll_data W P a s)) \<noteq> []"
    and "connection_error (last (cycle_outcomes W s (snd (lighter_poll_data W P a s))))"
  shows "fst (lighter_poll_data W P a s) = a\<lparr>l_timer_active := False\<rparr>"
proof -
  from lighter_poll_cycle [OF assms(1,2), of W P s] obtain evs where
    ev: "events (snd (lighter_poll_data W P a s)) = events s @ evs"
    and t: "fst (lighter_poll_data W P a s)
          = a\<lparr>l_timer_active :=
                \<not> (outcomes W (requests_sent s) (sent_requests evs) \<noteq> []
                   \<and> connection_error (last (outcomes W (requests_sent s) (sent_requests evs))))\<rparr>"
    by blast
  let ?os = "outcomes W (requests_sent s) (sent_requests evs)"
  have os: "cycle_outcomes W s (snd (lighter_poll_data W P a s)) = ?os"
    by (simp add: cycle_outcomes_def added_events_append [OF ev])
  from assms(3,4) have "?os \<noteq> [] \<and> connection_error (last ?os)"
    unfolding os by simp
  with t show ?thesis by simp
qed





end
